theory Spec2Isabelle
  imports Complex_Main "HOL-Library.AList" "HOL-Library.Multiset"
begin

section \<open>JavaScript numbers\<close>

text \<open>
  The code computes with JavaScript numbers, the binary64 numbers of IEEE 754. A finite
  number is modelled by the real it denotes, next to the two infinities and \<open>NaN\<close>. Each
  arithmetic operation computes the exact real result and rounds it to the nearest
  binary64 number, ties to the even significand, and to an infinity beyond the largest
  finite number; a division by zero yields an infinity or \<open>NaN\<close>, every comparison with
  \<open>NaN\<close> is false, and \<open>NaN\<close> propagates. There is a single zero: the sign of a
  zero is not kept. It could show only through a division by zero; the averages of the
  indicator are sums of non-negative terms starting from the literal \<open>0\<close>, which are
  never the negative zero, and the results below on the ledger divide by amounts that are
  not zero.
\<close>

datatype jsnum = Fin real | PInf | NInf | NaN

text \<open>The infinity of a given sign.\<close>

definition inf_of_sign :: "bool \<Rightarrow> jsnum" where
  "inf_of_sign pos = (if pos then PInf else NInf)"

subsection \<open>Rounding to binary64\<close>

text \<open>The nearest integer, a tie going to the even one.\<close>

definition round_half_even :: "real \<Rightarrow> int" where
  "round_half_even q =
     (let f = \<lfloor>q\<rfloor>; d = q - of_int f
      in if d < 1/2 then f else if 1/2 < d then f + 1 else if even f then f else f + 1)"

text \<open>
  The exponent \<open>k\<close> with \<open>2^k \<le> a < 2^(k+1)\<close>, for a positive \<open>a\<close>, found by halving or
  doubling. The search stops after 1100 steps: an exponent beyond that lies outside the
  range of binary64 on either side, where the result of rounding no longer depends on it.
\<close>

fun halvings :: "nat \<Rightarrow> real \<Rightarrow> int" where
  "halvings 0 a = 0"
| "halvings (Suc n) a = (if 2 \<le> a then halvings n (a / 2) + 1 else 0)"

fun doublings :: "nat \<Rightarrow> real \<Rightarrow> int" where
  "doublings 0 a = 0"
| "doublings (Suc n) a = (if a < 1 then doublings n (a * 2) + 1 else 0)"

definition binary_exponent :: "real \<Rightarrow> int" where
  "binary_exponent a = (if 1 \<le> a then halvings 1100 a else - doublings 1100 a)"

text \<open>
  Rounding a real to binary64. The significand has 53 bits, so the spacing of the numbers
  around \<open>a\<close> is \<open>2^e\<close> with \<open>e\<close> the exponent of \<open>a\<close> less 52, and never less than -1074
  (the subnormal numbers). The magnitude is rounded to a multiple of the spacing; a result
  of \<open>2^1024\<close> or more is an infinity. \<open>pow2 e\<close> is \<open>2^e\<close> for an integer \<open>e\<close>.
\<close>

definition pow2 :: "int \<Rightarrow> real" where
  "pow2 e = (if 0 \<le> e then 2 ^ nat e else 1 / 2 ^ nat (- e))"

definition round64 :: "real \<Rightarrow> jsnum" where
  "round64 x =
     (if x = 0 then Fin 0
      else
        let a = \<bar>x\<bar>;
            e = max (- 1074) (binary_exponent a - 52);
            r = of_int (round_half_even (a / pow2 e)) * pow2 e
        in if 2 ^ 1024 \<le> r then inf_of_sign (0 < x)
           else Fin (if 0 \<le> x then r else - r))"

text \<open>A real that is a binary64 number: rounding leaves it as it is.\<close>

definition exact :: "real \<Rightarrow> bool" where
  "exact x = (round64 x = Fin x)"

subsection \<open>Arithmetic and comparison\<close>

fun jneg :: "jsnum \<Rightarrow> jsnum" where
  "jneg (Fin a) = Fin (- a)"
| "jneg PInf = NInf"
| "jneg NInf = PInf"
| "jneg NaN = NaN"

fun jadd :: "jsnum \<Rightarrow> jsnum \<Rightarrow> jsnum" where
  "jadd (Fin a) (Fin b) = round64 (a + b)"
| "jadd NaN _ = NaN"
| "jadd _ NaN = NaN"
| "jadd PInf NInf = NaN"
| "jadd NInf PInf = NaN"
| "jadd PInf _ = PInf"
| "jadd _ PInf = PInf"
| "jadd NInf _ = NInf"
| "jadd _ NInf = NInf"

text \<open>\<open>a - b\<close> is \<open>a + (-b)\<close>; negation is exact.\<close>

definition jsub :: "jsnum \<Rightarrow> jsnum \<Rightarrow> jsnum" where
  "jsub a b = jadd a (jneg b)"

fun jmul :: "jsnum \<Rightarrow> jsnum \<Rightarrow> jsnum" where
  "jmul (Fin a) (Fin b) = round64 (a * b)"
| "jmul NaN _ = NaN"
| "jmul _ NaN = NaN"
| "jmul (Fin a) PInf = (if a = 0 then NaN else inf_of_sign (0 < a))"
| "jmul (Fin a) NInf = (if a = 0 then NaN else inf_of_sign (a < 0))"
| "jmul PInf (Fin b) = (if b = 0 then NaN else inf_of_sign (0 < b))"
| "jmul NInf (Fin b) = (if b = 0 then NaN else inf_of_sign (b < 0))"
| "jmul PInf PInf = PInf"
| "jmul NInf NInf = PInf"
| "jmul PInf NInf = NInf"
| "jmul NInf PInf = NInf"

fun jdiv :: "jsnum \<Rightarrow> jsnum \<Rightarrow> jsnum" where
  "jdiv (Fin a) (Fin b) =
     (if b \<noteq> 0 then round64 (a / b)
      else if a = 0 then NaN
      else inf_of_sign (0 < a))"
| "jdiv NaN _ = NaN"
| "jdiv _ NaN = NaN"
| "jdiv (Fin a) PInf = Fin 0"
| "jdiv (Fin a) NInf = Fin 0"
| "jdiv PInf (Fin b) = inf_of_sign (0 \<le> b)"
| "jdiv NInf (Fin b) = inf_of_sign (b < 0)"
| "jdiv PInf PInf = NaN"
| "jdiv PInf NInf = NaN"
| "jdiv NInf PInf = NaN"
| "jdiv NInf NInf = NaN"

text \<open>\<open>a < b\<close>; \<open>a > b\<close> is \<open>jlt b a\<close>.\<close>

fun jlt :: "jsnum \<Rightarrow> jsnum \<Rightarrow> bool" where
  "jlt (Fin a) (Fin b) = (a < b)"
| "jlt NaN _ = False"
| "jlt _ NaN = False"
| "jlt NInf NInf = False"
| "jlt NInf _ = True"
| "jlt _ NInf = False"
| "jlt PInf _ = False"
| "jlt _ PInf = True"

text \<open>\<open>a === b\<close> on numbers: \<open>NaN\<close> equals nothing, itself included.\<close>

definition jeq :: "jsnum \<Rightarrow> jsnum \<Rightarrow> bool" where
  "jeq a b = (a \<noteq> NaN \<and> a = b)"

text \<open>\<open>a <= b\<close>; \<open>a >= b\<close> is \<open>jle b a\<close>.\<close>

definition jle :: "jsnum \<Rightarrow> jsnum \<Rightarrow> bool" where
  "jle a b = (jlt a b \<or> jeq a b)"

fun jabs :: "jsnum \<Rightarrow> jsnum" where
  "jabs (Fin a) = Fin \<bar>a\<bar>"
| "jabs PInf = PInf"
| "jabs NInf = PInf"
| "jabs NaN = NaN"


text \<open>\<open>xs.reduce((a, b) => a + b, 0)\<close>\<close>

definition jsum :: "jsnum list \<Rightarrow> jsnum" where
  "jsum xs = foldl jadd (Fin 0) xs"

text \<open>The real behind a finite number, used to state results about finite inputs.\<close>

fun fin_of :: "jsnum \<Rightarrow> real" where
  "fin_of (Fin a) = a"
| "fin_of _ = 0"

fun is_fin :: "jsnum \<Rightarrow> bool" where
  "is_fin (Fin a) = True"
| "is_fin _ = False"


section \<open>Relative Strength Index (cryptoUtils.js)\<close>

text \<open>
  \<open>calculateRSI(data, period)\<close>. The period is a natural number.
\<close>

text \<open>\<open>changes[i-1] = data[i] - data[i-1]\<close> for \<open>i = 1 .. length - 1\<close>\<close>

fun changes_of :: "jsnum list \<Rightarrow> jsnum list" where
  "changes_of (x # y # rest) = jsub y x # changes_of (y # rest)"
| "changes_of _ = []"

definition gain_of :: "jsnum \<Rightarrow> jsnum" where
  "gain_of c = (if jlt (Fin 0) c then c else Fin 0)"

definition loss_of :: "jsnum \<Rightarrow> jsnum" where
  "loss_of c = (if jlt c (Fin 0) then jabs c else Fin 0)"

text \<open>\<open>100 - (100 / (1 + avgGain / avgLoss))\<close>\<close>

definition rsi_formula :: "jsnum \<Rightarrow> jsnum \<Rightarrow> jsnum" where
  "rsi_formula avgGain avgLoss =
     jsub (Fin 100) (jdiv (Fin 100) (jadd (Fin 1) (jdiv avgGain avgLoss)))"

text \<open>Wilder's smoothing step: \<open>(avg * (period - 1) + x) / period\<close>\<close>

definition smooth :: "nat \<Rightarrow> jsnum \<Rightarrow> jsnum \<Rightarrow> jsnum" where
  "smooth period avg x =
     jdiv (jadd (jmul avg (jsub (Fin (real period)) (Fin 1))) x) (Fin (real period))"

text \<open>
  The loop \<open>for (i = period; i < changes.length; i++)\<close>, run over the gains and losses from
  index \<open>period\<close> on; this is the only place that tests \<open>avgLoss === 0\<close>.
\<close>

fun rsi_loop :: "nat \<Rightarrow> jsnum \<Rightarrow> jsnum \<Rightarrow> (jsnum \<times> jsnum) list \<Rightarrow> jsnum list" where
  "rsi_loop period avgGain avgLoss [] = []"
| "rsi_loop period avgGain avgLoss ((g, l) # rest) =
     (let avgGain' = smooth period avgGain g;
          avgLoss' = smooth period avgLoss l
      in (if jeq avgLoss' (Fin 0) then Fin 100 else rsi_formula avgGain' avgLoss')
         # rsi_loop period avgGain' avgLoss' rest)"

definition calculateRSI :: "jsnum list \<Rightarrow> nat \<Rightarrow> jsnum list" where
  "calculateRSI data period =
     (if length data < period + 1 then []
      else
        let changes = changes_of data;
            gains = map gain_of changes;
            losses = map loss_of changes;
            avgGain = jdiv (jsum (take period gains)) (Fin (real period));
            avgLoss = jdiv (jsum (take period losses)) (Fin (real period))
        in rsi_formula avgGain avgLoss
           # rsi_loop period avgGain avgLoss (drop period (zip gains losses)))"

text \<open>Membership in the closed interval \<open>[0, 100]\<close>, as comparisons of JavaScript numbers.\<close>

definition in_0_100 :: "jsnum \<Rightarrow> bool" where
  "in_0_100 r = (jle (Fin 0) r \<and> jle r (Fin 100))"


section \<open>StorageManager (storageManager.js)\<close>

subsection \<open>The underlying storage and the envelope\<close>

text \<open>
  The wrapped storage (\<open>localStorage\<close>) is an ordered table from keys to stored strings.
  A stored string is modelled by what \<open>JSON.parse\<close> makes of it: \<open>Garbage\<close> is a string
  on which \<open>JSON.parse\<close> throws (or parses to \<open>null\<close>, on which the property read
  throws), \<open>Stored\<close> is a parsed envelope. Serialisation is taken to be the identity on
  the values stored. Times are milliseconds (\<open>Date.now()\<close>); one operation reads the
  clock once.
\<close>

definition STORAGE_PREFIX :: string where
  "STORAGE_PREFIX = ''cryptohub_''"

definition STORAGE_VERSION :: string where
  "STORAGE_VERSION = ''1.0''"

record 'v envelope =
  val :: 'v
  version :: string
  timestamp :: int
  expires :: "int option"

datatype 'v raw = Garbage | Stored "'v envelope"

text \<open>What \<open>setItem\<close> can throw; only the name \<open>QuotaExceededError\<close> is tested by the code.\<close>

datatype storage_error = QuotaExceededError | OtherError

text \<open>
  A listener is a callback with an identity; what it does when called is recorded in the
  store's trace of calls, and it may throw, depending on its arguments.
\<close>

record 'v callback =
  cb_id :: nat
  cb_throws :: "'v option \<Rightarrow> string \<Rightarrow> bool"

text \<open>
  The state of a \<open>StorageManager\<close>: the records of the underlying storage, the rule by which the
  underlying storage refuses a write (it sees the present records, the key and the new
  string), the listeners per key in subscription order, and the trace of listener calls
  \<open>(callback, value, key)\<close> made so far, where the value \<open>None\<close> is \<open>null\<close>.
\<close>

record 'v store =
  items :: "(string \<times> 'v raw) list"
  policy :: "(string \<times> 'v raw) list \<Rightarrow> string \<Rightarrow> 'v raw \<Rightarrow> storage_error option"
  listeners :: "(string \<times> 'v callback list) list"
  calls :: "(nat \<times> 'v option \<times> string) list"

definition getItem :: "'v store \<Rightarrow> string \<Rightarrow> 'v raw option" where
  "getItem st k = map_of (items st) k"

definition setItem :: "'v store \<Rightarrow> string \<Rightarrow> 'v raw \<Rightarrow> storage_error + 'v store" where
  "setItem st k r =
     (case policy st (items st) k r of
        Some e \<Rightarrow> Inl e
      | None \<Rightarrow> Inr (st\<lparr>items := AList.update k r (items st)\<rparr>))"

definition removeItem :: "'v store \<Rightarrow> string \<Rightarrow> 'v store" where
  "removeItem st k = st\<lparr>items := AList.delete k (items st)\<rparr>"

definition getFullKey :: "string \<Rightarrow> string" where
  "getFullKey key = STORAGE_PREFIX @ key"

text \<open>\<open>key.startsWith(prefix)\<close>\<close>

definition startsWith :: "string \<Rightarrow> string \<Rightarrow> bool" where
  "startsWith k p = (take (length p) k = p)"

subsection \<open>Listeners\<close>

text \<open>
  \<open>listeners.forEach\<close> with its \<open>try\<close>/\<open>catch\<close>: each callback is called, the call is
  recorded, and a callback that throws is caught there, so the loop goes on either way.
\<close>

fun notify_each :: "'v store \<Rightarrow> 'v callback list \<Rightarrow> 'v option \<Rightarrow> string \<Rightarrow> 'v store" where
  "notify_each st [] v key = st"
| "notify_each st (cb # cbs) v key =
     (let st' = st\<lparr>calls := calls st @ [(cb_id cb, v, key)]\<rparr>
      in if cb_throws cb v key then notify_each st' cbs v key
         else notify_each st' cbs v key)"

definition notifyListeners :: "'v store \<Rightarrow> string \<Rightarrow> 'v option \<Rightarrow> 'v store" where
  "notifyListeners st key v =
     (case map_of (listeners st) key of
        None \<Rightarrow> st
      | Some cbs \<Rightarrow> notify_each st cbs v key)"

text \<open>\<open>subscribe\<close>: the callbacks of a key form a set, so a callback is added once.\<close>

definition subscribe :: "'v store \<Rightarrow> string \<Rightarrow> 'v callback \<Rightarrow> 'v store" where
  "subscribe st key cb =
     (let cbs = (case map_of (listeners st) key of None \<Rightarrow> [] | Some c \<Rightarrow> c);
          cbs' = (if cb_id cb \<in> cb_id ` set cbs then cbs else cbs @ [cb])
      in st\<lparr>listeners := AList.update key cbs' (listeners st)\<rparr>)"

subsection \<open>remove, get, clearExpired, set\<close>

text \<open>\<open>remove(key)\<close>: \<open>removeItem\<close> of the underlying storage does not throw.\<close>

definition storage_remove :: "'v store \<Rightarrow> string \<Rightarrow> 'v store \<times> bool" where
  "storage_remove st key =
     (notifyListeners (removeItem st (getFullKey key)) key None, True)"

text \<open>\<open>data.expires && Date.now() > data.expires\<close>: an expiry of 0 is falsy.\<close>

definition is_expired :: "'v envelope \<Rightarrow> int \<Rightarrow> bool" where
  "is_expired data now =
     (case expires data of None \<Rightarrow> False | Some x \<Rightarrow> x \<noteq> 0 \<and> x < now)"

text \<open>
  \<open>get(key, defaultValue)\<close>. A missing item returns the default. When \<open>JSON.parse\<close> throws,
  the \<open>catch\<close> logs and returns the default. An expired envelope, then one of another
  version, is removed through \<open>remove\<close> and the default returned.
\<close>

definition storage_get :: "'v store \<Rightarrow> string \<Rightarrow> 'v \<Rightarrow> int \<Rightarrow> 'v store \<times> 'v" where
  "storage_get st key defaultValue now =
     (case getItem st (getFullKey key) of
        None \<Rightarrow> (st, defaultValue)
      | Some Garbage \<Rightarrow> (st, defaultValue)
      | Some (Stored data) \<Rightarrow>
          if is_expired data now then (fst (storage_remove st key), defaultValue)
          else if version data \<noteq> STORAGE_VERSION then (fst (storage_remove st key), defaultValue)
          else (st, val data))"

text \<open>
  \<open>clearExpired()\<close> walks the keys of the underlying storage from the last index down to 0.
  Removing the record at an index moves only records behind it, which the walk has already
  passed, so the walk visits the keys present at the start, in reverse order. Under the
  prefix, an expired envelope is removed, and so is a string that does not parse.
\<close>

fun clearExpired_loop :: "'v store \<Rightarrow> int \<Rightarrow> string list \<Rightarrow> nat \<Rightarrow> 'v store \<times> nat" where
  "clearExpired_loop st now [] cleared = (st, cleared)"
| "clearExpired_loop st now (k # ks) cleared =
     (if startsWith k STORAGE_PREFIX then
        (case getItem st k of
           Some (Stored item) \<Rightarrow>
             if is_expired item now
             then clearExpired_loop (removeItem st k) now ks (Suc cleared)
             else clearExpired_loop st now ks cleared
         | _ \<Rightarrow> clearExpired_loop (removeItem st k) now ks (Suc cleared))
      else clearExpired_loop st now ks cleared)"

definition clearExpired :: "'v store \<Rightarrow> int \<Rightarrow> 'v store \<times> nat" where
  "clearExpired st now = clearExpired_loop st now (rev (map fst (items st))) 0"

text \<open>\<open>expires: options.ttl ? Date.now() + options.ttl : null\<close>: a ttl of 0 is falsy.\<close>

definition expiry_of :: "int option \<Rightarrow> int \<Rightarrow> int option" where
  "expiry_of ttl now =
     (case ttl of None \<Rightarrow> None | Some t \<Rightarrow> if t \<noteq> 0 then Some (now + t) else None)"

text \<open>
  \<open>set(key, value, options)\<close>. The first write carries the expiry and is followed by the
  notification. When it throws \<open>QuotaExceededError\<close>, \<open>clearExpired\<close> runs and the write
  is tried again with an envelope of three fields, with no \<open>expires\<close>; the retry returns
  \<open>true\<close> straight after \<open>setItem\<close>. Any other error returns \<open>false\<close>.
\<close>

definition storage_set :: "'v store \<Rightarrow> string \<Rightarrow> 'v \<Rightarrow> int option \<Rightarrow> int \<Rightarrow> 'v store \<times> bool" where
  "storage_set st key v ttl now =
     (case setItem st (getFullKey key)
             (Stored \<lparr>val = v, version = STORAGE_VERSION, timestamp = now,
                      expires = expiry_of ttl now\<rparr>) of
        Inr st1 \<Rightarrow> (notifyListeners st1 key (Some v), True)
      | Inl error \<Rightarrow>
          if error = QuotaExceededError then
            (let st1 = fst (clearExpired st now)
             in case setItem st1 (getFullKey key)
                       (Stored \<lparr>val = v, version = STORAGE_VERSION, timestamp = now,
                                expires = None\<rparr>) of
                  Inr st2 \<Rightarrow> (st2, True)
                | Inl _ \<Rightarrow> (st1, False))
          else (st, False))"

subsection \<open>Storage media and states used in the evaluated scenarios\<close>

text \<open>A medium that accepts every write.\<close>

definition unlimited :: "(string \<times> 'v raw) list \<Rightarrow> string \<Rightarrow> 'v raw \<Rightarrow> storage_error option" where
  "unlimited its k r = None"

text \<open>A medium with room for \<open>n\<close> records: a write that would leave more is refused.\<close>

definition capacity :: "nat \<Rightarrow> (string \<times> 'v raw) list \<Rightarrow> string \<Rightarrow> 'v raw \<Rightarrow> storage_error option" where
  "capacity n its k r =
     (if n < length (AList.update k r its) then Some QuotaExceededError else None)"

text \<open>A medium with no room left: every write is refused with \<open>QuotaExceededError\<close>.\<close>

definition exhausted :: "(string \<times> 'v raw) list \<Rightarrow> string \<Rightarrow> 'v raw \<Rightarrow> storage_error option" where
  "exhausted its k r = Some QuotaExceededError"

definition empty_store :: "'v store" where
  "empty_store = \<lparr>items = [], policy = unlimited, listeners = [], calls = []\<rparr>"

text \<open>A record is live for a reader at \<open>now\<close>: it parses, has the current version and has not expired.\<close>

definition live :: "'v store \<Rightarrow> string \<Rightarrow> 'v \<Rightarrow> int \<Rightarrow> bool" where
  "live st key v now =
     (case getItem st (getFullKey key) of
        Some (Stored e) \<Rightarrow> val e = v \<and> version e = STORAGE_VERSION \<and> \<not> is_expired e now
      | _ \<Rightarrow> False)"


text \<open>What \<open>clearExpired\<close> removes under the prefix: an expired envelope, or a string that does not parse.\<close>

definition purgeable :: "'v raw option \<Rightarrow> int \<Rightarrow> bool" where
  "purgeable r now = (case r of Some (Stored e) \<Rightarrow> is_expired e now | _ \<Rightarrow> True)"

definition never_throws :: "'v option \<Rightarrow> string \<Rightarrow> bool" where
  "never_throws v k = False"

text \<open>A store whose record under \<open>theme\<close> does not parse.\<close>

definition corrupt_store :: "string store" where
  "corrupt_store =
     \<lparr>items = [(''cryptohub_theme'', Garbage)], policy = unlimited, listeners = [], calls = []\<rparr>"

text \<open>A store whose record under \<open>theme\<close> expired at time 500.\<close>

definition expired_store :: "string store" where
  "expired_store =
     \<lparr>items = [(''cryptohub_theme'',
         Stored \<lparr>val = ''light'', version = ''1.0'', timestamp = 0, expires = Some 500\<rparr>)],
      policy = unlimited, listeners = [], calls = []\<rparr>"

text \<open>
  A medium with room for one record, holding a record that expired at time 10, with one
  listener subscribed to \<open>theme\<close>.
\<close>

definition watched_full_store :: "string store" where
  "watched_full_store =
     \<lparr>items = [(''cryptohub_price_cache'',
         Stored \<lparr>val = ''old'', version = ''1.0'', timestamp = 0, expires = Some 10\<rparr>)],
      policy = capacity 1,
      listeners = [(''theme'', [\<lparr>cb_id = 1, cb_throws = never_throws\<rparr>])],
      calls = []\<rparr>"


section \<open>CacheManager\<close>

text \<open>
  The cache stores \<open>{data, cachedAt}\<close> under \<open>cache_<key>\<close>. The value read back is
  that object or \<open>null\<close>, so the values of the cache's store are optional entries, with
  \<open>None\<close> for \<open>null\<close>.
\<close>

record 'd cache_entry =
  data :: 'd
  cachedAt :: int

definition cacheKey :: "string \<Rightarrow> string" where
  "cacheKey key = ''cache_'' @ key"

text \<open>The default of \<open>maxAge\<close> and of \<open>ttl\<close>: five minutes.\<close>

definition DEFAULT_MAX_AGE :: int where
  "DEFAULT_MAX_AGE = 300000"

definition cache_get ::
  "'d cache_entry option store \<Rightarrow> string \<Rightarrow> int \<Rightarrow> int \<Rightarrow> 'd cache_entry option store \<times> 'd option" where
  "cache_get st key maxAge now =
     (case storage_get st (cacheKey key) None now of
        (st1, None) \<Rightarrow> (st1, None)
      | (st1, Some cached) \<Rightarrow>
          if maxAge < now - cachedAt cached
          then (fst (storage_remove st1 (cacheKey key)), None)
          else (st1, Some (data cached)))"

definition cache_set ::
  "'d cache_entry option store \<Rightarrow> string \<Rightarrow> 'd \<Rightarrow> int \<Rightarrow> int \<Rightarrow> 'd cache_entry option store \<times> bool" where
  "cache_set st key d ttl now =
     storage_set st (cacheKey key) (Some \<lparr>data = d, cachedAt = now\<rparr>) (Some ttl) now"

text \<open>A cache on a medium with room for one record, holding a record that expired at time 10.\<close>

definition full_cache :: "string cache_entry option store" where
  "full_cache =
     \<lparr>items = [(''cryptohub_cache_eth'',
         Stored \<lparr>val = Some \<lparr>data = ''1'', cachedAt = 0\<rparr>, version = ''1.0'', timestamp = 0,
                  expires = Some 10\<rparr>)],
      policy = capacity 1, listeners = [], calls = []\<rparr>"


section \<open>RecentSearchesManager\<close>












section \<open>PortfolioManager\<close>

subsection \<open>Transactions and holdings\<close>

text \<open>
  The transaction handed to \<open>addTransaction\<close>, and the entry of the log made from it:
  \<open>{id: generateId(), ...transaction, createdAt: Date.now()}\<close>. The generated id is an
  argument of the model.
\<close>

record transaction =
  tx_coinId :: string
  tx_symbol :: string
  tx_name :: string
  tx_type :: string
  tx_price :: jsnum
  tx_amount :: jsnum

record ledger_entry = transaction +
  tx_id :: string
  tx_createdAt :: int

text \<open>
  A holding. The incremental update writes \<open>createdAt\<close> and no \<open>totalCost\<close>; the rebuild
  writes \<open>totalCost\<close> and no \<open>createdAt\<close>. A field that is not written is \<open>None\<close>.
\<close>

record holding =
  h_coinId :: string
  h_symbol :: string
  h_name :: string
  h_amount :: jsnum
  h_averagePrice :: jsnum
  h_totalCost :: "jsnum option"
  h_createdAt :: "int option"
  h_updatedAt :: "int option"

text \<open>
  The two keys of the ledger hold values of two shapes. Each key is written by this class
  only, with its own shape; a value of the other shape under a key is read as the default.
\<close>

datatype pvalue = Holdings "holding list" | Transactions "ledger_entry list"

definition PORTFOLIO :: string where
  "PORTFOLIO = ''portfolio''"

definition TRANSACTIONS :: string where
  "TRANSACTIONS = ''transactions''"

definition getHoldings :: "pvalue store \<Rightarrow> int \<Rightarrow> pvalue store \<times> holding list" where
  "getHoldings st now =
     (case storage_get st PORTFOLIO (Holdings []) now of
        (st1, Holdings hs) \<Rightarrow> (st1, hs)
      | (st1, Transactions _) \<Rightarrow> (st1, []))"

definition getTransactions :: "pvalue store \<Rightarrow> int \<Rightarrow> pvalue store \<times> ledger_entry list" where
  "getTransactions st now =
     (case storage_get st TRANSACTIONS (Transactions []) now of
        (st1, Transactions txs) \<Rightarrow> (st1, txs)
      | (st1, Holdings _) \<Rightarrow> (st1, []))"

text \<open>\<open>xs.findIndex(P)\<close>, with \<open>None\<close> for \<open>-1\<close>.\<close>

fun findIndex :: "('a \<Rightarrow> bool) \<Rightarrow> 'a list \<Rightarrow> nat option" where
  "findIndex P [] = None"
| "findIndex P (x # xs) = (if P x then Some 0 else map_option Suc (findIndex P xs))"

subsection \<open>The incremental update\<close>

text \<open>
  The body of \<open>updateHoldings\<close> between the read and the write of the holdings:
  a buy updates the holding found or appends a new one; a sell of a coin that is held
  (\<open>existingIndex >= 0\<close>) lowers the amount, and removes the holding (\<open>splice\<close>)
  when the new amount is \<open><= 0\<close>; anything else leaves the list as it is.
\<close>

definition updateHoldings_list ::
  "holding list \<Rightarrow> 'a transaction_scheme \<Rightarrow> int \<Rightarrow> holding list" where
  "updateHoldings_list holdings tx now =
     (let existingIndex = findIndex (\<lambda>h. h_coinId h = tx_coinId tx) holdings in
      if tx_type tx = ''buy'' then
        (case existingIndex of
           Some i \<Rightarrow>
             let existing = holdings ! i;
                 totalCost = jadd (jmul (h_averagePrice existing) (h_amount existing))
                                  (jmul (tx_price tx) (tx_amount tx));
                 totalAmount = jadd (h_amount existing) (tx_amount tx)
             in holdings[i := existing\<lparr>h_amount := totalAmount,
                                        h_averagePrice := jdiv totalCost totalAmount,
                                        h_updatedAt := Some now\<rparr>]
         | None \<Rightarrow>
             holdings @ [\<lparr>h_coinId = tx_coinId tx, h_symbol = tx_symbol tx, h_name = tx_name tx,
                          h_amount = tx_amount tx, h_averagePrice = tx_price tx,
                          h_totalCost = None, h_createdAt = Some now, h_updatedAt = Some now\<rparr>])
      else if tx_type tx = ''sell'' \<and> existingIndex \<noteq> None then
        (case existingIndex of
           Some i \<Rightarrow>
             let existing = holdings ! i;
                 newAmount = jsub (h_amount existing) (tx_amount tx)
             in if jle newAmount (Fin 0) then take i holdings @ drop (Suc i) holdings
                else holdings[i := existing\<lparr>h_amount := newAmount, h_updatedAt := Some now\<rparr>]
         | None \<Rightarrow> holdings)
      else holdings)"

definition updateHoldings :: "pvalue store \<Rightarrow> 'a transaction_scheme \<Rightarrow> int \<Rightarrow> pvalue store" where
  "updateHoldings st tx now =
     (case getHoldings st now of (st1, holdings) \<Rightarrow>
        fst (storage_set st1 PORTFOLIO (Holdings (updateHoldings_list holdings tx now)) None now))"

text \<open>\<open>{id: generateId(), ...transaction, createdAt: Date.now()}\<close>\<close>

definition newTransaction :: "string \<Rightarrow> transaction \<Rightarrow> int \<Rightarrow> ledger_entry" where
  "newTransaction newId tx now =
     \<lparr>tx_coinId = tx_coinId tx, tx_symbol = tx_symbol tx, tx_name = tx_name tx,
      tx_type = tx_type tx, tx_price = tx_price tx, tx_amount = tx_amount tx,
      tx_id = newId, tx_createdAt = now\<rparr>"

definition addTransaction ::
  "pvalue store \<Rightarrow> string \<Rightarrow> transaction \<Rightarrow> int \<Rightarrow> pvalue store \<times> bool" where
  "addTransaction st newId tx now =
     (case getTransactions st now of (st1, transactions) \<Rightarrow>
        let st2 = fst (storage_set st1 TRANSACTIONS
                         (Transactions (transactions @ [newTransaction newId tx now])) None now)
        in (updateHoldings st2 tx now, True))"

subsection \<open>The full rebuild\<close>

text \<open>
  \<open>recalculateHoldings\<close> keeps one accumulator per coin in a \<open>Map\<close>, in the order of first
  occurrence. A buy adds the amount and the cost \<open>price * amount\<close>; a sell subtracts
  the amount and subtracts \<open>price * amount\<close> from the cost.
\<close>

record accumulator =
  acc_coinId :: string
  acc_symbol :: string
  acc_name :: string
  acc_amount :: jsnum
  acc_totalCost :: jsnum

definition recalculate_step ::
  "(string \<times> accumulator) list \<Rightarrow> 'a transaction_scheme \<Rightarrow> (string \<times> accumulator) list" where
  "recalculate_step holdings tx =
     (let existing = (case map_of holdings (tx_coinId tx) of
                        Some e \<Rightarrow> e
                      | None \<Rightarrow> \<lparr>acc_coinId = tx_coinId tx, acc_symbol = tx_symbol tx,
                                  acc_name = tx_name tx, acc_amount = Fin 0,
                                  acc_totalCost = Fin 0\<rparr>);
          existing' =
            (if tx_type tx = ''buy'' then
               existing\<lparr>acc_amount := jadd (acc_amount existing) (tx_amount tx),
                         acc_totalCost := jadd (acc_totalCost existing)
                                               (jmul (tx_price tx) (tx_amount tx))\<rparr>
             else if tx_type tx = ''sell'' then
               existing\<lparr>acc_amount := jsub (acc_amount existing) (tx_amount tx),
                         acc_totalCost := jsub (acc_totalCost existing)
                                               (jmul (tx_price tx) (tx_amount tx))\<rparr>
             else existing)
      in AList.update (tx_coinId tx) existing' holdings)"

definition recalculate_list :: "'a transaction_scheme list \<Rightarrow> int \<Rightarrow> holding list" where
  "recalculate_list transactions now =
     map (\<lambda>h. \<lparr>h_coinId = acc_coinId h, h_symbol = acc_symbol h, h_name = acc_name h,
                h_amount = acc_amount h,
                h_averagePrice = jdiv (acc_totalCost h) (acc_amount h),
                h_totalCost = Some (acc_totalCost h), h_createdAt = None,
                h_updatedAt = Some now\<rparr>)
         (filter (\<lambda>h. jlt (Fin 0) (acc_amount h))
            (map snd (foldl recalculate_step [] transactions)))"

definition recalculateHoldings :: "pvalue store \<Rightarrow> int \<Rightarrow> pvalue store" where
  "recalculateHoldings st now =
     (case getTransactions st now of (st1, transactions) \<Rightarrow>
        fst (storage_set st1 PORTFOLIO (Holdings (recalculate_list transactions now)) None now))"

subsection \<open>Replaying transactions, and the weighted mean\<close>

text \<open>Applying transactions in turn through the incremental update, each at its own time.\<close>

fun apply_incrementally :: "holding list \<Rightarrow> ('a transaction_scheme \<times> int) list \<Rightarrow> holding list" where
  "apply_incrementally holdings [] = holdings"
| "apply_incrementally holdings ((tx, now) # rest) =
     apply_incrementally (updateHoldings_list holdings tx now) rest"

text \<open>
  The quantity-weighted mean of the fill prices, in the words of the specification: the
  sum of \<open>price * amount\<close> over the sum of the amounts, on the reals.
\<close>

definition weighted_mean :: "'a transaction_scheme list \<Rightarrow> real" where
  "weighted_mean txs =
     sum_list (map (\<lambda>t. fin_of (tx_price t) * fin_of (tx_amount t)) txs)
     / sum_list (map (\<lambda>t. fin_of (tx_amount t)) txs)"

text \<open>A buy of coin \<open>c\<close> with a finite price and a finite positive amount.\<close>

definition is_buy_of :: "string \<Rightarrow> 'a transaction_scheme \<Rightarrow> bool" where
  "is_buy_of c tx =
     (tx_type tx = ''buy'' \<and> tx_coinId tx = c \<and> is_fin (tx_price tx) \<and> is_fin (tx_amount tx)
      \<and> 0 < fin_of (tx_amount tx))"

text \<open>The scenario of the specification, with a sell at another price.\<close>

definition buy_btc_10000 :: transaction where
  "buy_btc_10000 = \<lparr>tx_coinId = ''bitcoin'', tx_symbol = ''BTC'', tx_name = ''Bitcoin'',
     tx_type = ''buy'', tx_price = Fin 10000, tx_amount = Fin 1\<rparr>"

definition buy_btc_20000 :: transaction where
  "buy_btc_20000 = \<lparr>tx_coinId = ''bitcoin'', tx_symbol = ''BTC'', tx_name = ''Bitcoin'',
     tx_type = ''buy'', tx_price = Fin 20000, tx_amount = Fin 1\<rparr>"

definition sell_btc_30000 :: transaction where
  "sell_btc_30000 = \<lparr>tx_coinId = ''bitcoin'', tx_symbol = ''BTC'', tx_name = ''Bitcoin'',
     tx_type = ''sell'', tx_price = Fin 30000, tx_amount = Fin (1/2)\<rparr>"

definition ledger_after_two :: "pvalue store" where
  "ledger_after_two =
     fst (addTransaction (fst (addTransaction empty_store ''t1'' buy_btc_10000 1))
            ''t2'' buy_btc_20000 2)"

definition ledger_after_three :: "pvalue store" where
  "ledger_after_three = fst (addTransaction ledger_after_two ''t3'' sell_btc_30000 3)"

definition amount_and_average :: "holding \<Rightarrow> string \<times> jsnum \<times> jsnum" where
  "amount_and_average h = (h_coinId h, h_amount h, h_averagePrice h)"


subsection \<open>The results that the ledger discards\<close>

text \<open>
  \<open>updateHoldings\<close> does not look at what \<open>storage.set\<close> returns, and \<open>addTransaction\<close>
  returns \<open>true\<close> whatever happened. The two functions below give the result of the write
  of the holdings inside \<open>updateHoldings\<close>, alone and as run by \<open>addTransaction\<close> after
  its write of the log.
\<close>

definition updateHoldings_stored :: "pvalue store \<Rightarrow> 'a transaction_scheme \<Rightarrow> int \<Rightarrow> bool" where
  "updateHoldings_stored st tx now =
     (case getHoldings st now of (st1, holdings) \<Rightarrow>
        snd (storage_set st1 PORTFOLIO (Holdings (updateHoldings_list holdings tx now)) None now))"

definition holdings_stored :: "pvalue store \<Rightarrow> string \<Rightarrow> transaction \<Rightarrow> int \<Rightarrow> bool" where
  "holdings_stored st newId tx now =
     (case getTransactions st now of (st1, transactions) \<Rightarrow>
        let st2 = fst (storage_set st1 TRANSACTIONS
                         (Transactions (transactions @ [newTransaction newId tx now])) None now)
        in updateHoldings_stored st2 tx now)"

subsection \<open>Buys whose running average is computed without rounding\<close>

text \<open>
  For a holding with average \<open>avg\<close> and amount \<open>A\<close>, the buys that follow are applied
  without rounding when, at each buy, the two products, the total cost, the total amount
  and the quotient are binary64 numbers as they stand.
\<close>

fun rounding_free :: "real \<Rightarrow> real \<Rightarrow> ('a transaction_scheme \<times> int) list \<Rightarrow> bool" where
  "rounding_free avg A [] = True"
| "rounding_free avg A ((tx, t) # rest) =
     (let p = fin_of (tx_price tx);
          a = fin_of (tx_amount tx);
          cost = avg * A + p * a;
          total = A + a
      in exact (avg * A) \<and> exact (p * a) \<and> exact cost \<and> exact total \<and> exact (cost / total)
         \<and> rounding_free (cost / total) total rest)"

text \<open>The first buy of a coin computes nothing: it sets the average and the amount.\<close>

definition buys_rounding_free :: "('a transaction_scheme \<times> int) list \<Rightarrow> bool" where
  "buys_rounding_free txs =
     (case txs of
        [] \<Rightarrow> True
      | (tx, t) # rest \<Rightarrow> rounding_free (fin_of (tx_price tx)) (fin_of (tx_amount tx)) rest)"

text \<open>Three buys whose quantity-weighted mean price is 2.\<close>

definition buy_7_at_3 :: transaction where
  "buy_7_at_3 = \<lparr>tx_coinId = ''bitcoin'', tx_symbol = ''BTC'', tx_name = ''Bitcoin'',
     tx_type = ''buy'', tx_price = Fin 3, tx_amount = Fin 7\<rparr>"

definition buy_6_at_1 :: transaction where
  "buy_6_at_1 = \<lparr>tx_coinId = ''bitcoin'', tx_symbol = ''BTC'', tx_name = ''Bitcoin'',
     tx_type = ''buy'', tx_price = Fin 1, tx_amount = Fin 6\<rparr>"

definition buy_1_at_1 :: transaction where
  "buy_1_at_1 = \<lparr>tx_coinId = ''bitcoin'', tx_symbol = ''BTC'', tx_name = ''Bitcoin'',
     tx_type = ''buy'', tx_price = Fin 1, tx_amount = Fin 1\<rparr>"

text \<open>
  A ledger that holds 2 bitcoin at the average 15000, on a medium with room for two
  records; the same ledger on a medium with no room left; and a ledger that holds
  \<open>2^53\<close> of a coin.
\<close>

definition two_btc :: holding where
  "two_btc = \<lparr>h_coinId = ''bitcoin'', h_symbol = ''BTC'', h_name = ''Bitcoin'', h_amount = Fin 2,
     h_averagePrice = Fin 15000, h_totalCost = None, h_createdAt = Some 1,
     h_updatedAt = Some 2\<rparr>"

definition ledger_with_room :: "pvalue store" where
  "ledger_with_room =
     \<lparr>items = [(''cryptohub_portfolio'',
         Stored \<lparr>val = Holdings [two_btc], version = ''1.0'', timestamp = 2, expires = None\<rparr>)],
      policy = capacity 2, listeners = [], calls = []\<rparr>"

definition ledger_exhausted :: "pvalue store" where
  "ledger_exhausted = ledger_with_room\<lparr>policy := exhausted\<rparr>"

definition ledger_large :: "pvalue store" where
  "ledger_large =
     \<lparr>items = [(''cryptohub_portfolio'',
         Stored \<lparr>val = Holdings [two_btc\<lparr>h_amount := Fin 9007199254740992\<rparr>], version = ''1.0'',
                  timestamp = 2, expires = None\<rparr>)],
      policy = capacity 2, listeners = [], calls = []\<rparr>"

section \<open>AlertsManager\<close>









subsection \<open>Notions used to state the properties of the alerts\<close>











subsection \<open>The results that the evaluation of the alerts discards\<close>





section \<open>Rounding of particular numbers\<close>

lemma halvings_numeral:
  "halvings (numeral k) a = (if 2 \<le> a then halvings (pred_numeral k) (a / 2) + 1 else 0)"
  by (simp only: numeral_eq_Suc halvings.simps)

lemma doublings_numeral:
  "doublings (numeral k) a = (if a < 1 then doublings (pred_numeral k) (a * 2) + 1 else 0)"
  by (simp only: numeral_eq_Suc doublings.simps)

lemma round64_0 [simp]: "round64 0 = Fin 0"
  by (simp add: round64_def)

lemma round64_not_NaN [simp]: "round64 x \<noteq> NaN"
  by (simp add: round64_def Let_def inf_of_sign_def)

lemma round64_1: "round64 1 = Fin 1"
  apply (simp only: round64_def Let_def)
  apply (simp add: binary_exponent_def halvings_numeral doublings_numeral)
  apply (simp add: pow2_def round_half_even_def Let_def inf_of_sign_def)
  done

lemma round64_2: "round64 2 = Fin 2"
  apply (simp only: round64_def Let_def)
  apply (simp add: binary_exponent_def halvings_numeral doublings_numeral)
  apply (simp add: pow2_def round_half_even_def Let_def inf_of_sign_def)
  done

lemma round64_3_2: "round64 (3/2) = Fin (3/2)"
  apply (simp only: round64_def Let_def)
  apply (simp add: binary_exponent_def halvings_numeral doublings_numeral)
  apply (simp add: pow2_def round_half_even_def Let_def inf_of_sign_def)
  done

lemma round64_10000: "round64 10000 = Fin 10000"
  apply (simp only: round64_def Let_def)
  apply (simp add: binary_exponent_def halvings_numeral doublings_numeral)
  apply (simp add: pow2_def round_half_even_def Let_def inf_of_sign_def)
  done

lemma round64_15000: "round64 15000 = Fin 15000"
  apply (simp only: round64_def Let_def)
  apply (simp add: binary_exponent_def halvings_numeral doublings_numeral)
  apply (simp add: pow2_def round_half_even_def Let_def inf_of_sign_def)
  done

lemma round64_20000: "round64 20000 = Fin 20000"
  apply (simp only: round64_def Let_def)
  apply (simp add: binary_exponent_def halvings_numeral doublings_numeral)
  apply (simp add: pow2_def round_half_even_def Let_def inf_of_sign_def)
  done

lemma round64_30000: "round64 30000 = Fin 30000"
  apply (simp only: round64_def Let_def)
  apply (simp add: binary_exponent_def halvings_numeral doublings_numeral)
  apply (simp add: pow2_def round_half_even_def Let_def inf_of_sign_def)
  done

lemmas round64_ledger = round64_1 round64_2 round64_3_2 round64_10000 round64_15000
  round64_20000 round64_30000


lemma round64_2_53_less_half: "round64 (18014398509481983 / 2) = Fin 9007199254740992"
  apply (simp only: round64_def Let_def)
  apply (simp add: binary_exponent_def halvings_numeral doublings_numeral)
  apply (simp add: pow2_def round_half_even_def Let_def inf_of_sign_def)
  done

lemma round64_6: "round64 6 = Fin 6"
  apply (simp only: round64_def Let_def)
  apply (simp add: binary_exponent_def halvings_numeral doublings_numeral)
  apply (simp add: pow2_def round_half_even_def Let_def inf_of_sign_def)
  done

lemma round64_8: "round64 8 = Fin 8"
  apply (simp only: round64_def Let_def)
  apply (simp add: binary_exponent_def halvings_numeral doublings_numeral)
  apply (simp add: pow2_def round_half_even_def Let_def inf_of_sign_def)
  done

lemma round64_13: "round64 13 = Fin 13"
  apply (simp only: round64_def Let_def)
  apply (simp add: binary_exponent_def halvings_numeral doublings_numeral)
  apply (simp add: pow2_def round_half_even_def Let_def inf_of_sign_def)
  done

lemma round64_14: "round64 14 = Fin 14"
  apply (simp only: round64_def Let_def)
  apply (simp add: binary_exponent_def halvings_numeral doublings_numeral)
  apply (simp add: pow2_def round_half_even_def Let_def inf_of_sign_def)
  done

lemma round64_21: "round64 21 = Fin 21"
  apply (simp only: round64_def Let_def)
  apply (simp add: binary_exponent_def halvings_numeral doublings_numeral)
  apply (simp add: pow2_def round_half_even_def Let_def inf_of_sign_def)
  done

lemma round64_22: "round64 22 = Fin 22"
  apply (simp only: round64_def Let_def)
  apply (simp add: binary_exponent_def halvings_numeral doublings_numeral)
  apply (simp add: pow2_def round_half_even_def Let_def inf_of_sign_def)
  done

lemma round64_27: "round64 27 = Fin 27"
  apply (simp only: round64_def Let_def)
  apply (simp add: binary_exponent_def halvings_numeral doublings_numeral)
  apply (simp add: pow2_def round_half_even_def Let_def inf_of_sign_def)
  done

lemma round64_28: "round64 28 = Fin 28"
  apply (simp only: round64_def Let_def)
  apply (simp add: binary_exponent_def halvings_numeral doublings_numeral)
  apply (simp add: pow2_def round_half_even_def Let_def inf_of_sign_def)
  done

lemma round64_11_4: "round64 (11/4) = Fin (11/4)"
  apply (simp only: round64_def Let_def)
  apply (simp add: binary_exponent_def halvings_numeral doublings_numeral)
  apply (simp add: pow2_def round_half_even_def Let_def inf_of_sign_def)
  done

lemma round64_27_13: "round64 (27/13) = Fin (4676814997653977 / 2251799813685248)"
  apply (simp only: round64_def Let_def)
  apply (simp add: binary_exponent_def halvings_numeral doublings_numeral)
  apply (simp add: pow2_def round_half_even_def Let_def inf_of_sign_def)
  done

lemma round64_cost_3: 
  "round64 (60798594969501701 / 2251799813685248) = Fin (7599824371187713 / 281474976710656)"
  apply (simp only: round64_def Let_def)
  apply (simp add: binary_exponent_def halvings_numeral doublings_numeral)
  apply (simp add: pow2_def round_half_even_def Let_def inf_of_sign_def)
  done

lemma round64_total_3: 
  "round64 (7881299347898369 / 281474976710656) = Fin (7881299347898369 / 281474976710656)"
  apply (simp only: round64_def Let_def)
  apply (simp add: binary_exponent_def halvings_numeral doublings_numeral)
  apply (simp add: pow2_def round_half_even_def Let_def inf_of_sign_def)
  done

lemma round64_average_3: 
  "round64 (7881299347898369 / 3940649673949184) = Fin (4503599627370497 / 2251799813685248)"
  apply (simp only: round64_def Let_def)
  apply (simp add: binary_exponent_def halvings_numeral doublings_numeral)
  apply (simp add: pow2_def round_half_even_def Let_def inf_of_sign_def)
  done

lemmas round64_buys = round64_1 round64_2 round64_6 round64_8 round64_13 round64_14 round64_21
  round64_22 round64_27 round64_28 round64_11_4 round64_27_13 round64_cost_3 round64_total_3
  round64_average_3

section \<open>Properties of the indicator\<close>

text \<open>
  C3. Claimed: for a series of at least \<open>period + 1\<close> prices, every output of
  \<open>calculateRSI\<close> lies in \<open>[0, 100]\<close>, and the output is 100 whenever the average loss is
  0, the first output and the constant series included. The code guards \<open>avgLoss === 0\<close>
  only inside the loop. For the constant series \<open>[5, 5]\<close> with period 1 both averages are
  0, the unguarded first value is \<open>100 - 100 / (1 + 0 / 0)\<close>, and the result is the single
  value \<open>NaN\<close>, which is neither 100 nor inside \<open>[0, 100]\<close>.
\<close>

theorem calculateRSI_constant_series_nan:
  "calculateRSI [Fin 5, Fin 5] 1 = [NaN]
   \<and> \<not> in_0_100 (hd (calculateRSI [Fin 5, Fin 5] 1))
   \<and> hd (calculateRSI [Fin 5, Fin 5] 1) \<noteq> Fin 100"
  by (simp add: calculateRSI_def rsi_formula_def gain_of_def loss_of_def jsum_def jsub_def
      in_0_100_def jle_def jeq_def)

section \<open>Properties of the StorageManager\<close>

lemma notify_each_fields [simp]:
  "items (notify_each st cbs v key) = items st"
  "policy (notify_each st cbs v key) = policy st"
  "listeners (notify_each st cbs v key) = listeners st"
  by (induction cbs arbitrary: st) (simp_all add: Let_def)

lemma notifyListeners_fields [simp]:
  "items (notifyListeners st key v) = items st"
  "policy (notifyListeners st key v) = policy st"
  "listeners (notifyListeners st key v) = listeners st"
  by (simp_all add: notifyListeners_def split: option.split)

lemma getItem_notifyListeners [simp]:
  "getItem (notifyListeners st key v) k = getItem st k"
  by (simp add: getItem_def)

lemma removeItem_fields [simp]:
  "policy (removeItem st k) = policy st"
  "listeners (removeItem st k) = listeners st"
  "calls (removeItem st k) = calls st"
  by (simp_all add: removeItem_def)

lemma getItem_removeItem [simp]:
  "getItem (removeItem st k) k' = (if k' = k then None else getItem st k')"
  by (simp add: getItem_def removeItem_def delete_conv)

lemma getItem_storage_remove [simp]:
  "getItem (fst (storage_remove st key)) k = (if k = getFullKey key then None else getItem st k)"
  by (simp add: storage_remove_def)

lemma storage_remove_fields [simp]:
  "policy (fst (storage_remove st key)) = policy st"
  "listeners (fst (storage_remove st key)) = listeners st"
  by (simp_all add: storage_remove_def)

lemma clearExpired_loop_fields [simp]:
  "policy (fst (clearExpired_loop st now ks c)) = policy st"
  "listeners (fst (clearExpired_loop st now ks c)) = listeners st"
  "calls (fst (clearExpired_loop st now ks c)) = calls st"
  by (induction ks arbitrary: st c) (simp_all split: option.split raw.split)

lemma getItem_clearExpired_loop:
  "getItem (fst (clearExpired_loop st now ks c)) k =
     (if k \<in> set ks \<and> startsWith k STORAGE_PREFIX \<and> purgeable (getItem st k) now
      then None else getItem st k)"
proof (induction ks arbitrary: st c)
  case Nil
  then show ?case by simp
next
  case (Cons a ks)
  show ?case
  proof (cases "startsWith a STORAGE_PREFIX \<and> purgeable (getItem st a) now")
    case True
    then have "clearExpired_loop st now (a # ks) c =
               clearExpired_loop (removeItem st a) now ks (Suc c)"
      by (auto simp: purgeable_def split: option.splits raw.splits)
    then show ?thesis
      using True by (auto simp: Cons.IH)
  next
    case False
    then have "clearExpired_loop st now (a # ks) c = clearExpired_loop st now ks c"
      by (auto simp: purgeable_def split: option.splits raw.splits)
    then show ?thesis
      using False by (auto simp: Cons.IH)
  qed
qed

lemma getItem_in_keys: "getItem st k \<noteq> None \<Longrightarrow> k \<in> set (map fst (items st))"
  by (auto simp: getItem_def dest: map_of_SomeD intro: rev_image_eqI)

lemma getItem_clearExpired:
  "getItem (fst (clearExpired st now)) k =
     (if startsWith k STORAGE_PREFIX \<and> purgeable (getItem st k) now
      then None else getItem st k)"
  using getItem_in_keys[of st k]
  by (cases "getItem st k") (auto simp: clearExpired_def getItem_clearExpired_loop)

lemma clearExpired_fields [simp]:
  "policy (fst (clearExpired st now)) = policy st"
  "listeners (fst (clearExpired st now)) = listeners st"
  "calls (fst (clearExpired st now)) = calls st"
  by (simp_all add: clearExpired_def)

lemma startsWith_getFullKey [simp]: "startsWith (getFullKey key) STORAGE_PREFIX"
  by (simp add: startsWith_def getFullKey_def)

lemma getFullKey_inj [simp]: "(getFullKey a = getFullKey b) = (a = b)"
  by (simp add: getFullKey_def)

lemma getItem_update [simp]:
  "getItem (st\<lparr>items := AList.update k r (items st)\<rparr>) k' = (if k' = k then Some r else getItem st k')"
  by (simp add: getItem_def update_conv)

lemma storage_get_live: "live st key v now \<Longrightarrow> storage_get st key d now = (st, v)"
  by (auto simp: live_def storage_get_def split: option.splits raw.splits)

lemma snd_storage_get:
  "snd (storage_get st key d now) =
     (case getItem st (getFullKey key) of
        Some (Stored e) \<Rightarrow> if is_expired e now \<or> version e \<noteq> STORAGE_VERSION then d else val e
      | _ \<Rightarrow> d)"
  by (simp add: storage_get_def split: option.splits raw.splits)

text \<open>
  C2. Claimed: when the stored envelope does not parse, has another schema version or is
  past its expiry, \<open>get\<close> returns the default and deletes the record. The branches of
  \<open>get\<close> for an expired envelope and for another version call \<open>remove\<close>, and
  \<open>clearExpired\<close> removes a record that does not parse; the \<open>catch\<close> of \<open>get\<close>
  only returns the default. On a store whose record under \<open>theme\<close> does not parse,
  \<open>get\<close> returns the default and leaves the store as it was, the record included;
  on the store whose record has expired the record is gone after \<open>get\<close>; and
  \<open>clearExpired\<close> removes the unparsable record that \<open>get\<close> left.
\<close>

theorem storage_get_garbage_kept:
  "getItem corrupt_store (getFullKey ''theme'') = Some Garbage
   \<and> storage_get corrupt_store ''theme'' ''dark'' 1000 = (corrupt_store, ''dark'')
   \<and> getItem (fst (storage_get corrupt_store ''theme'' ''dark'' 1000)) (getFullKey ''theme'')
       = Some Garbage
   \<and> snd (storage_get expired_store ''theme'' ''dark'' 1000) = ''dark''
   \<and> getItem (fst (storage_get expired_store ''theme'' ''dark'' 1000)) (getFullKey ''theme'')
       = None
   \<and> getItem (fst (clearExpired corrupt_store 1000)) (getFullKey ''theme'') = None"
  by (simp add: corrupt_store_def expired_store_def storage_get_def getItem_def getFullKey_def
      STORAGE_PREFIX_def is_expired_def storage_remove_def removeItem_def notifyListeners_def
      clearExpired_def startsWith_def)

text \<open>
  C4. Claimed: after every successful \<open>set\<close>, the one that succeeds only on the retry
  after quota exhaustion included, the listeners of the key are called with the new value.
  The retry returns \<open>true\<close> without calling \<open>notifyListeners\<close>: on a full medium
  whose only record has expired, \<open>set\<close> succeeds on the retry, the value is stored, and
  the listener subscribed to the key is not called; the same write on a medium with room
  calls it.
\<close>

theorem storage_set_retry_skips_listeners:
  "map_of (listeners watched_full_store) ''theme'' = Some [\<lparr>cb_id = 1, cb_throws = never_throws\<rparr>]
   \<and> snd (storage_set watched_full_store ''theme'' ''dark'' None 100) = True
   \<and> getItem (fst (storage_set watched_full_store ''theme'' ''dark'' None 100)) (getFullKey ''theme'')
       = Some (Stored \<lparr>val = ''dark'', version = ''1.0'', timestamp = 100, expires = None\<rparr>)
   \<and> calls (fst (storage_set watched_full_store ''theme'' ''dark'' None 100)) = []
   \<and> calls (fst (storage_set (watched_full_store\<lparr>policy := unlimited\<rparr>) ''theme'' ''dark'' None 100))
       = [(1, Some ''dark'', ''theme'')]"
  by (simp add: watched_full_store_def storage_set_def setItem_def capacity_def unlimited_def
      getFullKey_def STORAGE_PREFIX_def STORAGE_VERSION_def expiry_of_def clearExpired_def
      startsWith_def getItem_def removeItem_def is_expired_def notifyListeners_def never_throws_def)

text \<open>
  C8. When the first write of \<open>set\<close> is refused with \<open>QuotaExceededError\<close>: every record
  under the prefix that has expired (or does not parse) is purged and every other record
  under another key is kept; the write is retried once, with an envelope that has no
  expiry, and \<open>set\<close> succeeds exactly when the medium accepts that retry; when it succeeds
  the record under the key is that envelope; when it fails, \<open>set\<close> returns \<open>false\<close>,
  a read of the key returns what it returned before, and a live record under the key is
  still the same record. No listener is called on this path.
\<close>

theorem storage_set_quota_recovery:
  assumes quota:
    "policy st (items st) (getFullKey key)
       (Stored \<lparr>val = v, version = STORAGE_VERSION, timestamp = now, expires = expiry_of ttl now\<rparr>)
     = Some QuotaExceededError"
  shows
    "case storage_set st key v ttl now of (st', ok) \<Rightarrow>
       (\<forall>k. k \<noteq> getFullKey key \<longrightarrow>
            getItem st' k =
              (if startsWith k STORAGE_PREFIX \<and> purgeable (getItem st k) now then None
               else getItem st k))
     \<and> ok = (policy st (items (fst (clearExpired st now))) (getFullKey key)
               (Stored \<lparr>val = v, version = STORAGE_VERSION, timestamp = now, expires = None\<rparr>)
             = None)
     \<and> (ok \<longrightarrow> getItem st' (getFullKey key)
               = Some (Stored \<lparr>val = v, version = STORAGE_VERSION, timestamp = now, expires = None\<rparr>))
     \<and> (\<not> ok \<longrightarrow>
           snd (storage_get st' key d now) = snd (storage_get st key d now)
         \<and> (\<forall>w. live st key w now \<longrightarrow> getItem st' (getFullKey key) = getItem st (getFullKey key)))
     \<and> calls st' = calls st \<and> listeners st' = listeners st"
proof -
  let ?st1 = "fst (clearExpired st now)"
  let ?retry = "Stored \<lparr>val = v, version = STORAGE_VERSION, timestamp = now, expires = None\<rparr>"
  show ?thesis
  proof (cases "policy st (items ?st1) (getFullKey key) ?retry")
    case None
    then have "storage_set st key v ttl now
               = (?st1\<lparr>items := AList.update (getFullKey key) ?retry (items ?st1)\<rparr>, True)"
      using quota by (simp add: storage_set_def setItem_def Let_def)
    then show ?thesis
      using None by (simp add: getItem_clearExpired)
  next
    case (Some e)
    then have eq: "storage_set st key v ttl now = (?st1, False)"
      using quota by (simp add: storage_set_def setItem_def Let_def)
    have "snd (storage_get ?st1 key d now) = snd (storage_get st key d now)"
      by (auto simp: snd_storage_get getItem_clearExpired purgeable_def
          split: option.splits raw.splits)
    moreover have "\<forall>w. live st key w now \<longrightarrow>
        getItem ?st1 (getFullKey key) = getItem st (getFullKey key)"
      by (auto simp: live_def getItem_clearExpired purgeable_def split: option.splits raw.splits)
    ultimately show ?thesis
      using Some eq by (simp add: getItem_clearExpired)
  qed
qed

theorem storage_set_quota_recovery_witness:
  "policy watched_full_store (items watched_full_store) (getFullKey ''theme'')
       (Stored \<lparr>val = ''dark'', version = STORAGE_VERSION, timestamp = 100,
                expires = expiry_of (Some 50) 100\<rparr>)
     = Some QuotaExceededError
   \<and> snd (storage_set watched_full_store ''theme'' ''dark'' (Some 50) 100) = True
   \<and> getItem (fst (storage_set watched_full_store ''theme'' ''dark'' (Some 50) 100))
        ''cryptohub_price_cache'' = None
   \<and> getItem (fst (storage_set watched_full_store ''theme'' ''dark'' (Some 50) 100))
        (getFullKey ''theme'')
       = Some (Stored \<lparr>val = ''dark'', version = STORAGE_VERSION, timestamp = 100, expires = None\<rparr>)"
proof -
  have q: "policy watched_full_store (items watched_full_store) (getFullKey ''theme'')
       (Stored \<lparr>val = ''dark'', version = STORAGE_VERSION, timestamp = 100,
                expires = expiry_of (Some 50) 100\<rparr>)
     = Some QuotaExceededError"
    by (simp add: watched_full_store_def capacity_def getFullKey_def STORAGE_PREFIX_def)
  have p: "policy watched_full_store (items (fst (clearExpired watched_full_store 100)))
       (getFullKey ''theme'')
       (Stored \<lparr>val = ''dark'', version = STORAGE_VERSION, timestamp = 100, expires = None\<rparr>)
     = None"
    by (simp add: watched_full_store_def capacity_def getFullKey_def STORAGE_PREFIX_def
        clearExpired_def startsWith_def getItem_def is_expired_def removeItem_def)
  have g: "getItem watched_full_store ''cryptohub_price_cache''
     = Some (Stored \<lparr>val = ''old'', version = ''1.0'', timestamp = 0, expires = Some 10\<rparr>)"
    by (simp add: watched_full_store_def getItem_def)
  show ?thesis
    using storage_set_quota_recovery [OF q, of "''light''"] q p g
    by (auto simp: purgeable_def is_expired_def startsWith_def STORAGE_PREFIX_def getFullKey_def
        split: prod.splits)
qed

section \<open>Properties of the CacheManager\<close>

lemma storage_set_accepted:
  assumes "policy st (items st) (getFullKey key)
       (Stored \<lparr>val = v, version = STORAGE_VERSION, timestamp = now, expires = expiry_of ttl now\<rparr>)
     = None"
  shows "storage_set st key v ttl now =
     (notifyListeners (st\<lparr>items := AList.update (getFullKey key)
        (Stored \<lparr>val = v, version = STORAGE_VERSION, timestamp = now, expires = expiry_of ttl now\<rparr>)
        (items st)\<rparr>) key (Some v), True)"
  using assms by (simp add: storage_set_def setItem_def)

lemma cache_get_stale:
  assumes "getItem st (getFullKey (cacheKey key)) = Some (Stored e)"
    and "val e = Some c"
    and "is_expired e now \<or> maxAge < now - cachedAt c"
  shows "snd (cache_get st key maxAge now) = None
       \<and> getItem (fst (cache_get st key maxAge now)) (getFullKey (cacheKey key)) = None"
  using assms by (auto simp: cache_get_def storage_get_def)

text \<open>
  C9. Claimed: an entry written by \<open>CacheManager.set\<close> with \<open>ttl = 1000\<close> is absent and
  purged when read 1001 ms later, is returned unchanged when read 999 ms later, and any
  stale read evicts the entry before returning absence.
  As amended: this holds when the medium accepts the first write of \<open>set\<close>. (When the
  first write is refused for quota and the retry succeeds, the entry is stored without an
  expiry and only the \<open>maxAge\<close> check of the reader applies.) The read at 1001 ms is
  absent for every \<open>maxAge\<close>; the read at 999 ms returns the data for every
  \<open>maxAge\<close> of at least 999, the default included. The last conjunct is the general
  eviction: a parsed record that fails the store's expiry check or the
  \<open>now - cachedAt > maxAge\<close> check is read as absent and is gone afterwards. The clock
  is not negative.
\<close>

theorem cache_ttl_scenario:
  assumes accepted:
    "policy st (items st) (getFullKey (cacheKey key))
       (Stored \<lparr>val = Some \<lparr>data = d, cachedAt = t0\<rparr>, version = STORAGE_VERSION,
                timestamp = t0, expires = Some (t0 + 1000)\<rparr>) = None"
    and clock: "0 \<le> t0"
  shows
    "snd (cache_set st key d 1000 t0) = True
     \<and> snd (cache_get (fst (cache_set st key d 1000 t0)) key maxAge (t0 + 1001)) = None
     \<and> getItem (fst (cache_get (fst (cache_set st key d 1000 t0)) key maxAge (t0 + 1001)))
          (getFullKey (cacheKey key)) = None
     \<and> (999 \<le> maxAge2 \<longrightarrow>
          cache_get (fst (cache_set st key d 1000 t0)) key maxAge2 (t0 + 999)
            = (fst (cache_set st key d 1000 t0), Some d))
     \<and> (getItem st' (getFullKey (cacheKey key)) = Some (Stored e) \<and> val e = Some c
          \<and> (is_expired e now \<or> maxAge' < now - cachedAt c)
        \<longrightarrow> snd (cache_get st' key maxAge' now) = None
          \<and> getItem (fst (cache_get st' key maxAge' now)) (getFullKey (cacheKey key)) = None)"
proof -
  let ?env = "\<lparr>val = Some \<lparr>data = d, cachedAt = t0\<rparr>, version = STORAGE_VERSION,
                timestamp = t0, expires = Some (t0 + 1000)\<rparr>"
  let ?st1 = "fst (cache_set st key d 1000 t0)"
  have set_eq: "cache_set st key d 1000 t0 =
     (notifyListeners (st\<lparr>items := AList.update (getFullKey (cacheKey key)) (Stored ?env) (items st)\<rparr>)
        (cacheKey key) (Some (Some \<lparr>data = d, cachedAt = t0\<rparr>)), True)"
    unfolding cache_set_def
    using storage_set_accepted [of st "cacheKey key" "Some \<lparr>data = d, cachedAt = t0\<rparr>" t0 "Some 1000"]
      accepted
    by (simp add: expiry_of_def)
  have item: "getItem ?st1 (getFullKey (cacheKey key)) = Some (Stored ?env)"
    by (simp add: set_eq)
  have late: "is_expired ?env (t0 + 1001)"
    using clock by (simp add: is_expired_def)
  have early: "\<not> is_expired ?env (t0 + 999)"
    by (simp add: is_expired_def)
  have "snd (cache_get ?st1 key maxAge (t0 + 1001)) = None
       \<and> getItem (fst (cache_get ?st1 key maxAge (t0 + 1001))) (getFullKey (cacheKey key)) = None"
    using cache_get_stale [OF item, of "\<lparr>data = d, cachedAt = t0\<rparr>" "t0 + 1001" maxAge] late
    by simp
  moreover have "cache_get ?st1 key maxAge2 (t0 + 999) = (?st1, Some d)" if "999 \<le> maxAge2"
    using item early that by (simp add: cache_get_def storage_get_def)
  moreover have "snd (cache_set st key d 1000 t0) = True"
    by (simp add: set_eq)
  ultimately show ?thesis
    using cache_get_stale [of st' key e c now maxAge'] by blast
qed

theorem cache_ttl_scenario_witness:
  "policy empty_store (items empty_store) (getFullKey (cacheKey ''btc''))
       (Stored \<lparr>val = Some \<lparr>data = ''42'', cachedAt = 5000\<rparr>, version = STORAGE_VERSION,
                timestamp = 5000, expires = Some (5000 + 1000)\<rparr>) = None
   \<and> snd (cache_get (fst (cache_set empty_store ''btc'' ''42'' 1000 5000)) ''btc'' DEFAULT_MAX_AGE (5000 + 1001)) = None
   \<and> snd (cache_get (fst (cache_set empty_store ''btc'' ''42'' 1000 5000)) ''btc'' DEFAULT_MAX_AGE (5000 + 999))
       = Some ''42''"
proof -
  have a: "policy empty_store (items empty_store) (getFullKey (cacheKey ''btc''))
       (Stored \<lparr>val = Some \<lparr>data = ''42'', cachedAt = 5000\<rparr>, version = STORAGE_VERSION,
                timestamp = 5000, expires = Some (5000 + 1000)\<rparr>) = None"
    by (simp add: empty_store_def unlimited_def)
  have c: "(0::int) \<le> 5000" by simp
  have m: "999 \<le> DEFAULT_MAX_AGE"
    by (simp add: DEFAULT_MAX_AGE_def)
  show ?thesis
    using cache_ttl_scenario [OF a c, of DEFAULT_MAX_AGE DEFAULT_MAX_AGE] a m by (metis snd_conv)
qed

text \<open>
  The claim as stated fails when the write succeeded on the retry: on a full medium whose
  only record has expired, \<open>set\<close> with \<open>ttl = 1000\<close> at time 5000 returns \<open>true\<close>,
  and a read with the default \<open>maxAge\<close> at time 6001 returns the data.
\<close>

theorem cache_set_retry_outlives_ttl:
  "snd (cache_set full_cache ''btc'' ''42'' 1000 5000) = True
   \<and> snd (cache_get (fst (cache_set full_cache ''btc'' ''42'' 1000 5000)) ''btc'' DEFAULT_MAX_AGE 6001)
       = Some ''42''"
  by (simp add: full_cache_def cache_set_def cache_get_def cacheKey_def DEFAULT_MAX_AGE_def
      storage_set_def setItem_def capacity_def getFullKey_def STORAGE_PREFIX_def
      STORAGE_VERSION_def expiry_of_def clearExpired_def
      startsWith_def getItem_def removeItem_def is_expired_def storage_get_def)

section \<open>Properties of the RecentSearchesManager\<close>

lemma storage_set_success_item:
  assumes "snd (storage_set st key v ttl now)"
  shows "\<exists>x. getItem (fst (storage_set st key v ttl now)) (getFullKey key)
              = Some (Stored \<lparr>val = v, version = STORAGE_VERSION, timestamp = now, expires = x\<rparr>)
            \<and> (x = None \<or> x = expiry_of ttl now)"
  using assms
  by (auto simp: storage_set_def setItem_def Let_def split: option.splits if_splits)

lemma storage_set_success_live:
  assumes "snd (storage_set st key v None now)"
  shows "live (fst (storage_set st key v None now)) key v now'"
  using storage_set_success_item [OF assms]
  by (auto simp: live_def is_expired_def expiry_of_def)

lemma storage_set_success_get:
  assumes "snd (storage_set st key v None now)"
  shows "storage_get (fst (storage_set st key v None now)) key d now'
         = (fst (storage_set st key v None now), v)"
  by (rule storage_get_live [OF storage_set_success_live [OF assms]])




section \<open>Properties of the PortfolioManager\<close>

lemma storage_get_fields [simp]:
  "policy (fst (storage_get st key d now)) = policy st"
  "listeners (fst (storage_get st key d now)) = listeners st"
  by (simp_all add: storage_get_def split: option.split raw.split)

lemma getItem_storage_get_other:
  "k \<noteq> getFullKey key \<Longrightarrow> getItem (fst (storage_get st key d now)) k = getItem st k"
  by (simp add: storage_get_def split: option.split raw.split)

lemma storage_set_unlimited:
  assumes "policy st = unlimited"
  shows "storage_set st key v ttl now =
     (notifyListeners (st\<lparr>items := AList.update (getFullKey key)
        (Stored \<lparr>val = v, version = STORAGE_VERSION, timestamp = now, expires = expiry_of ttl now\<rparr>)
        (items st)\<rparr>) key (Some v), True)"
  by (rule storage_set_accepted) (simp add: assms unlimited_def)

lemma storage_set_unlimited_props:
  assumes "policy st = unlimited"
  shows "snd (storage_set st key v ttl now)"
    and "policy (fst (storage_set st key v ttl now)) = unlimited"
    and "k \<noteq> getFullKey key \<Longrightarrow> getItem (fst (storage_set st key v ttl now)) k = getItem st k"
  by (simp_all add: storage_set_unlimited [OF assms] assms)

lemma snd_getHoldings:
  "snd (getHoldings st now) =
     (case snd (storage_get st PORTFOLIO (Holdings []) now) of
        Holdings hs \<Rightarrow> hs | Transactions _ \<Rightarrow> [])"
  by (simp add: getHoldings_def split: prod.split pvalue.split)

lemma snd_getTransactions:
  "snd (getTransactions st now) =
     (case snd (storage_get st TRANSACTIONS (Transactions []) now) of
        Transactions txs \<Rightarrow> txs | Holdings _ \<Rightarrow> [])"
  by (simp add: getTransactions_def split: prod.split pvalue.split)

lemma fst_getHoldings: "fst (getHoldings st now) = fst (storage_get st PORTFOLIO (Holdings []) now)"
  by (simp add: getHoldings_def split: prod.split pvalue.split)

lemma fst_getTransactions:
  "fst (getTransactions st now) = fst (storage_get st TRANSACTIONS (Transactions []) now)"
  by (simp add: getTransactions_def split: prod.split pvalue.split)

lemma keys_differ [simp]:
  "PORTFOLIO \<noteq> TRANSACTIONS"
  "TRANSACTIONS \<noteq> PORTFOLIO"
  by (simp_all add: PORTFOLIO_def TRANSACTIONS_def)

text \<open>What a read of a key returns depends on the record under that key only.\<close>

lemma snd_storage_get_cong:
  "getItem st (getFullKey key) = getItem st' (getFullKey key)
   \<Longrightarrow> snd (storage_get st key d now) = snd (storage_get st' key d now)"
  by (simp add: snd_storage_get)



lemma snd_storage_get_clearExpired:
  "snd (storage_get (fst (clearExpired st now)) key d now) = snd (storage_get st key d now)"
  by (auto simp: snd_storage_get getItem_clearExpired purgeable_def
      split: option.splits raw.splits)

text \<open>A write to one key does not change what a read of another key returns.\<close>

lemma storage_set_other_read:
  assumes "key' \<noteq> key"
  shows "snd (storage_get (fst (storage_set st key v ttl now)) key' d now)
         = snd (storage_get st key' d now)"
proof (cases "policy st (items st) (getFullKey key)
       (Stored \<lparr>val = v, version = STORAGE_VERSION, timestamp = now, expires = expiry_of ttl now\<rparr>)")
  case None
  then show ?thesis
    using assms by (simp add: storage_set_accepted snd_storage_get)
next
  case (Some e)
  show ?thesis
  proof (cases "e = QuotaExceededError")
    case False
    then show ?thesis
      using Some by (simp add: storage_set_def setItem_def)
  next
    case True
    let ?st1 = "fst (clearExpired st now)"
    have "getItem (fst (storage_set st key v ttl now)) (getFullKey key')
          = getItem ?st1 (getFullKey key')"
      using Some True assms
      by (simp add: storage_set_def setItem_def Let_def split: option.splits)
    then have "snd (storage_get (fst (storage_set st key v ttl now)) key' d now)
               = snd (storage_get ?st1 key' d now)"
      by (rule snd_storage_get_cong)
    then show ?thesis
      by (simp add: snd_storage_get_clearExpired)
  qed
qed

lemma storage_get_other_read:
  assumes "key' \<noteq> key"
  shows "snd (storage_get (fst (storage_get st key d0 now)) key' d now')
         = snd (storage_get st key' d now')"
  using assms by (intro snd_storage_get_cong) (simp add: getItem_storage_get_other)



lemma storage_set_refused_read:
  assumes "\<not> snd (storage_set st key v ttl now)"
  shows "snd (storage_get (fst (storage_set st key v ttl now)) key' d now)
         = snd (storage_get st key' d now)"
proof -
  have "fst (storage_set st key v ttl now) = st
      \<or> fst (storage_set st key v ttl now) = fst (clearExpired st now)"
    using assms
    by (auto simp: storage_set_def setItem_def Let_def split: option.splits if_splits)
  then show ?thesis
    by (auto simp: snd_storage_get_clearExpired)
qed

lemma storage_get_again:
  "snd (storage_get (fst (storage_get st key d0 now)) key d now) = snd (storage_get st key d now)"
  by (simp add: storage_get_def split: option.split raw.split)

lemma getHoldings_after_set:
  assumes "snd (storage_set st PORTFOLIO (Holdings hs) None now)"
  shows "snd (getHoldings (fst (storage_set st PORTFOLIO (Holdings hs) None now)) now') = hs"
  by (simp add: getHoldings_def storage_set_success_get [OF assms])

lemma getTransactions_after_set:
  assumes "snd (storage_set st TRANSACTIONS (Transactions txs) None now)"
  shows "snd (getTransactions (fst (storage_set st TRANSACTIONS (Transactions txs) None now)) now')
         = txs"
  by (simp add: getTransactions_def storage_set_success_get [OF assms])

lemma updateHoldings_unlimited:
  assumes "policy st = unlimited"
  shows "snd (getHoldings (updateHoldings st tx now) now')
           = updateHoldings_list (snd (getHoldings st now)) tx now"
    and "policy (updateHoldings st tx now) = unlimited"
    and "getItem (updateHoldings st tx now) (getFullKey TRANSACTIONS)
           = getItem st (getFullKey TRANSACTIONS)"
proof -
  let ?st1 = "fst (getHoldings st now)"
  let ?new = "Holdings (updateHoldings_list (snd (getHoldings st now)) tx now)"
  have p1: "policy ?st1 = unlimited"
    by (simp add: fst_getHoldings assms)
  have eq: "updateHoldings st tx now = fst (storage_set ?st1 PORTFOLIO ?new None now)"
    by (simp add: updateHoldings_def split: prod.split)
  have ok: "snd (storage_set ?st1 PORTFOLIO ?new None now)"
    by (rule storage_set_unlimited_props(1) [OF p1])
  show "snd (getHoldings (updateHoldings st tx now) now')
           = updateHoldings_list (snd (getHoldings st now)) tx now"
    unfolding eq by (rule getHoldings_after_set [OF ok])
  show "policy (updateHoldings st tx now) = unlimited"
    by (simp add: eq storage_set_unlimited_props(2) [OF p1])
  show "getItem (updateHoldings st tx now) (getFullKey TRANSACTIONS)
           = getItem st (getFullKey TRANSACTIONS)"
    unfolding eq
    by (subst storage_set_unlimited_props(3) [OF p1])
       (simp_all add: fst_getHoldings getItem_storage_get_other)
qed

lemma addTransaction_unlimited:
  assumes "policy st = unlimited"
  shows "snd (getHoldings (fst (addTransaction st newId tx now)) now')
           = updateHoldings_list (snd (getHoldings st now)) tx now"
    and "policy (fst (addTransaction st newId tx now)) = unlimited"
    and "snd (getTransactions (fst (addTransaction st newId tx now)) now') =
           snd (getTransactions st now)
           @ [newTransaction newId tx now]"
proof -
  let ?st1 = "fst (getTransactions st now)"
  let ?entry = "newTransaction newId tx now"
  let ?log = "Transactions (snd (getTransactions st now) @ [?entry])"
  let ?st2 = "fst (storage_set ?st1 TRANSACTIONS ?log None now)"
  have p1: "policy ?st1 = unlimited"
    by (simp add: fst_getTransactions assms)
  have p2: "policy ?st2 = unlimited"
    by (rule storage_set_unlimited_props(2) [OF p1])
  have ok: "snd (storage_set ?st1 TRANSACTIONS ?log None now)"
    by (rule storage_set_unlimited_props(1) [OF p1])
  have eq: "fst (addTransaction st newId tx now) = updateHoldings ?st2 tx now"
    by (simp add: addTransaction_def Let_def split: prod.split)
  have same: "getItem ?st2 (getFullKey PORTFOLIO) = getItem st (getFullKey PORTFOLIO)"
    by (subst storage_set_unlimited_props(3) [OF p1])
       (simp_all add: fst_getTransactions getItem_storage_get_other)
  have "snd (getHoldings ?st2 now) = snd (getHoldings st now)"
    by (simp add: snd_getHoldings snd_storage_get_cong [OF same])
  then show "snd (getHoldings (fst (addTransaction st newId tx now)) now')
           = updateHoldings_list (snd (getHoldings st now)) tx now"
    by (simp add: eq updateHoldings_unlimited(1) [OF p2])
  show "policy (fst (addTransaction st newId tx now)) = unlimited"
    by (simp add: eq updateHoldings_unlimited(2) [OF p2])
  have "getItem (updateHoldings ?st2 tx now) (getFullKey TRANSACTIONS)
        = getItem ?st2 (getFullKey TRANSACTIONS)"
    by (rule updateHoldings_unlimited(3) [OF p2])
  then have "snd (storage_get (updateHoldings ?st2 tx now) TRANSACTIONS (Transactions []) now')
        = snd (storage_get ?st2 TRANSACTIONS (Transactions []) now')"
    by (rule snd_storage_get_cong)
  then have "snd (getTransactions (updateHoldings ?st2 tx now) now')
        = snd (getTransactions ?st2 now')"
    by (simp add: snd_getTransactions)
  then show "snd (getTransactions (fst (addTransaction st newId tx now)) now') =
           snd (getTransactions st now) @ [?entry]"
    unfolding eq using getTransactions_after_set [OF ok] by simp
qed

lemma recalculateHoldings_unlimited:
  assumes "policy st = unlimited"
  shows "snd (getHoldings (recalculateHoldings st now) now')
           = recalculate_list (snd (getTransactions st now)) now"
proof -
  let ?st1 = "fst (getTransactions st now)"
  let ?new = "Holdings (recalculate_list (snd (getTransactions st now)) now)"
  have p1: "policy ?st1 = unlimited"
    by (simp add: fst_getTransactions assms)
  have eq: "recalculateHoldings st now = fst (storage_set ?st1 PORTFOLIO ?new None now)"
    by (simp add: recalculateHoldings_def split: prod.split)
  have ok: "snd (storage_set ?st1 PORTFOLIO ?new None now)"
    by (rule storage_set_unlimited_props(1) [OF p1])
  show ?thesis
    unfolding eq by (rule getHoldings_after_set [OF ok])
qed

lemma empty_store_reads:
  "policy (empty_store :: pvalue store) = unlimited"
  "snd (getHoldings empty_store now) = []"
  "snd (getTransactions empty_store now) = []"
  by (simp_all add: empty_store_def getHoldings_def getTransactions_def storage_get_def
      getItem_def)

text \<open>
  C1. Claimed: for every sequence of buys and sells of one coin the incremental path and
  the rebuild agree on the amount and the average price of every holding, and a sell never
  alters the average price under either path. The rebuild subtracts \<open>price * amount\<close>
  of a sell from the total cost, so a sell at a price other than the average changes the
  rebuilt average. After buying 1 at 10000, buying 1 at 20000 and selling 0.5 at 30000
  through \<open>addTransaction\<close>, the holdings read amount 1.5 and average 15000;
  \<open>recalculateHoldings\<close> on the same log then stores amount 1.5 and average 10000.
\<close>

theorem rebuild_disagrees_with_incremental:
  "map amount_and_average (snd (getHoldings ledger_after_three 4))
     = [(''bitcoin'', Fin (3/2), Fin 15000)]
   \<and> map amount_and_average (snd (getHoldings (recalculateHoldings ledger_after_three 4) 5))
     = [(''bitcoin'', Fin (3/2), Fin 10000)]"
proof -
  let ?s1 = "fst (addTransaction empty_store ''t1'' buy_btc_10000 1)"
  let ?s2 = "fst (addTransaction ?s1 ''t2'' buy_btc_20000 2)"
  have p0: "policy (empty_store :: pvalue store) = unlimited"
    by (rule empty_store_reads)
  have p1: "policy ?s1 = unlimited"
    by (rule addTransaction_unlimited(2) [OF p0])
  have p2: "policy ?s2 = unlimited"
    by (rule addTransaction_unlimited(2) [OF p1])
  have p3: "policy ledger_after_three = unlimited"
    unfolding ledger_after_three_def ledger_after_two_def by (rule addTransaction_unlimited(2) [OF p2])
  have h: "snd (getHoldings ledger_after_three 4) =
      apply_incrementally [] [(buy_btc_10000, 1), (buy_btc_20000, 2), (sell_btc_30000, 3)]"
    unfolding ledger_after_three_def ledger_after_two_def
    by (simp add: addTransaction_unlimited(1) [OF p2] addTransaction_unlimited(1) [OF p1]
        addTransaction_unlimited(1) [OF p0] empty_store_reads)
  have t: "snd (getTransactions ledger_after_three 4) =
      [newTransaction ''t1'' buy_btc_10000 1, newTransaction ''t2'' buy_btc_20000 2,
       newTransaction ''t3'' sell_btc_30000 3]"
    unfolding ledger_after_three_def ledger_after_two_def
    by (simp add: addTransaction_unlimited(3) [OF p2] addTransaction_unlimited(3) [OF p1]
        addTransaction_unlimited(3) [OF p0] empty_store_reads)
  have "map amount_and_average (snd (getHoldings ledger_after_three 4))
     = [(''bitcoin'', Fin (3/2), Fin 15000)]"
    unfolding h
    by (simp add: updateHoldings_list_def buy_btc_10000_def buy_btc_20000_def sell_btc_30000_def
      amount_and_average_def jsub_def jle_def jeq_def Let_def round64_ledger)
  moreover have "map amount_and_average (snd (getHoldings (recalculateHoldings ledger_after_three 4) 5))
     = [(''bitcoin'', Fin (3/2), Fin 10000)]"
    unfolding recalculateHoldings_unlimited [OF p3] t
    by (simp add: newTransaction_def
        recalculate_list_def recalculate_step_def buy_btc_10000_def buy_btc_20000_def
        sell_btc_30000_def amount_and_average_def jsub_def jle_def jeq_def Let_def
        round64_ledger)
  ultimately show ?thesis by simp
qed

lemma getHoldings_again:
  "snd (getHoldings (fst (getHoldings st now)) now) = snd (getHoldings st now)"
  by (simp add: snd_getHoldings fst_getHoldings storage_get_again)

lemma updateHoldings_reads:
  shows "updateHoldings_stored st tx now
         \<Longrightarrow> snd (getHoldings (updateHoldings st tx now) now')
             = updateHoldings_list (snd (getHoldings st now)) tx now"
    and "\<not> updateHoldings_stored st tx now
         \<Longrightarrow> snd (getHoldings (updateHoldings st tx now) now) = snd (getHoldings st now)"
proof -
  let ?st1 = "fst (getHoldings st now)"
  let ?new = "Holdings (updateHoldings_list (snd (getHoldings st now)) tx now)"
  have eq: "updateHoldings st tx now = fst (storage_set ?st1 PORTFOLIO ?new None now)"
    by (simp add: updateHoldings_def split: prod.split)
  have ok: "updateHoldings_stored st tx now = snd (storage_set ?st1 PORTFOLIO ?new None now)"
    by (simp add: updateHoldings_stored_def split: prod.split)
  show "snd (getHoldings (updateHoldings st tx now) now')
             = updateHoldings_list (snd (getHoldings st now)) tx now"
    if "updateHoldings_stored st tx now"
    unfolding eq using that ok by (intro getHoldings_after_set) simp
  show "snd (getHoldings (updateHoldings st tx now) now) = snd (getHoldings st now)"
    if "\<not> updateHoldings_stored st tx now"
  proof -
    have no: "\<not> snd (storage_set ?st1 PORTFOLIO ?new None now)"
      using that ok by simp
    have "snd (storage_get (fst (storage_set ?st1 PORTFOLIO ?new None now)) PORTFOLIO
                 (Holdings []) now)
          = snd (storage_get ?st1 PORTFOLIO (Holdings []) now)"
      by (rule storage_set_refused_read [OF no])
    then have "snd (getHoldings (fst (storage_set ?st1 PORTFOLIO ?new None now)) now)
               = snd (getHoldings ?st1 now)"
      by (simp only: snd_getHoldings)
    then have "snd (getHoldings (updateHoldings st tx now) now) = snd (getHoldings ?st1 now)"
      by (simp only: eq)
    then show ?thesis
      by (simp add: getHoldings_again)
  qed
qed

lemma addTransaction_reads:
  shows "holdings_stored st newId tx now
         \<Longrightarrow> snd (getHoldings (fst (addTransaction st newId tx now)) now')
             = updateHoldings_list (snd (getHoldings st now)) tx now"
    and "\<not> holdings_stored st newId tx now
         \<Longrightarrow> snd (getHoldings (fst (addTransaction st newId tx now)) now) = snd (getHoldings st now)"
    and "snd (addTransaction st newId tx now)"
proof -
  let ?st1 = "fst (getTransactions st now)"
  let ?log = "Transactions (snd (getTransactions st now) @ [newTransaction newId tx now])"
  let ?st2 = "fst (storage_set ?st1 TRANSACTIONS ?log None now)"
  have eq: "fst (addTransaction st newId tx now) = updateHoldings ?st2 tx now"
    by (simp add: addTransaction_def Let_def split: prod.split)
  have ok: "holdings_stored st newId tx now = updateHoldings_stored ?st2 tx now"
    by (simp add: holdings_stored_def Let_def split: prod.split)
  have same: "snd (getHoldings ?st2 now) = snd (getHoldings st now)"
    by (simp add: snd_getHoldings fst_getTransactions storage_set_other_read
        storage_get_other_read)
  show "snd (getHoldings (fst (addTransaction st newId tx now)) now')
             = updateHoldings_list (snd (getHoldings st now)) tx now"
    if "holdings_stored st newId tx now"
    using that by (simp add: eq ok updateHoldings_reads(1) same)
  show "snd (getHoldings (fst (addTransaction st newId tx now)) now) = snd (getHoldings st now)"
    if "\<not> holdings_stored st newId tx now"
    using that by (simp add: eq ok updateHoldings_reads(2) same)
  show "snd (addTransaction st newId tx now)"
    by (simp add: addTransaction_def Let_def split: prod.split)
qed

lemma findIndex_None: "(findIndex P xs = None) = (\<forall>x\<in>set xs. \<not> P x)"
  by (induction xs) auto

lemma findIndex_Some:
  "findIndex P xs = Some i \<Longrightarrow> i < length xs \<and> P (xs ! i) \<and> (\<forall>j<i. \<not> P (xs ! j))"
proof (induction xs arbitrary: i)
  case Nil
  then show ?case by simp
next
  case (Cons x xs)
  show ?case
  proof (cases "P x")
    case True
    with Cons.prems show ?thesis by simp
  next
    case False
    with Cons.prems obtain k where k: "findIndex P xs = Some k" "i = Suc k"
      by auto
    from Cons.IH [OF k(1)] False k(2) show ?thesis
      by (auto simp: nth_Cons split: nat.splits)
  qed
qed

lemma findIndex_append_last:
  "\<forall>x\<in>set xs. \<not> P x \<Longrightarrow> P y \<Longrightarrow> findIndex P (xs @ [y]) = Some (length xs)"
  by (induction xs) auto

lemma nth_not_in_rest:
  assumes "distinct (map f xs)" and "i < length xs"
  shows "f (xs ! i) \<notin> f ` set (take i xs @ drop (Suc i) xs)"
proof -
  have "xs = take i xs @ xs ! i # drop (Suc i) xs"
    using assms(2) by (rule id_take_nth_drop)
  then have "distinct (map f (take i xs @ xs ! i # drop (Suc i) xs))"
    using assms(1) by simp
  then show ?thesis
    by auto
qed

lemma sell_step:
  assumes held: "findIndex (\<lambda>h. h_coinId h = tx_coinId tx) hs = Some i"
    and sell: "tx_type tx = ''sell''"
    and fin: "h_amount (hs ! i) = Fin a" "tx_amount tx = Fin b"
  shows "updateHoldings_list hs tx now =
           (if jle (round64 (a - b)) (Fin 0) then take i hs @ drop (Suc i) hs
            else hs[i := (hs ! i)\<lparr>h_amount := round64 (a - b), h_updatedAt := Some now\<rparr>])"
  using assms by (simp add: updateHoldings_list_def Let_def jsub_def)

lemma not_jle_zero: "y \<noteq> NaN \<Longrightarrow> \<not> jle y (Fin 0) \<Longrightarrow> jlt (Fin 0) y"
  by (cases y) (auto simp: jle_def jeq_def)

text \<open>
  C5. Claimed: for every existing holding, a sell through \<open>addTransaction\<close> lowers the
  amount by exactly the fill amount and leaves the average price unchanged, and a resulting
  amount \<open>\<le> 0\<close> removes the holding from \<open>getHoldings()\<close>, so that no holding with a
  zero or negative amount is stored by this path.
  As amended, on any medium: \<open>addTransaction\<close> of a sell of amount \<open>b\<close> for a coin
  whose holding (the one \<open>findIndex\<close> finds) has amount \<open>a\<close> returns \<open>true\<close>. With
  \<open>d\<close> the binary64 rounding of \<open>a - b\<close>, which is \<open>a - b\<close> when that is a binary64
  number: when the write of the holdings is stored, the holdings read afterwards are the
  list without that holding if \<open>d \<le> 0\<close>, and otherwise the same list with that
  holding's amount \<open>d\<close> and its average price unchanged; when the write is refused, the
  holdings read at that time are the ones read before. With distinct coin ids the list
  without the holding has no holding of the coin, and if every holding had a positive
  amount before, every holding of the list that is written has one.
\<close>

theorem sell_lowers_amount_or_removes:
  assumes held: "findIndex (\<lambda>h. h_coinId h = tx_coinId tx) (snd (getHoldings st now)) = Some i"
    and sell: "tx_type tx = ''sell''"
    and fin: "h_amount (snd (getHoldings st now) ! i) = Fin a" "tx_amount tx = Fin b"
  shows
    "let before = snd (getHoldings st now);
         st' = fst (addTransaction st newId tx now);
         d = round64 (a - b);
         lowered = before[i := (before ! i)\<lparr>h_amount := d, h_updatedAt := Some now\<rparr>];
         removed = take i before @ drop (Suc i) before;
         written = (if jle d (Fin 0) then removed else lowered)
     in snd (addTransaction st newId tx now)
      \<and> (holdings_stored st newId tx now \<longrightarrow> snd (getHoldings st' now') = written)
      \<and> (\<not> holdings_stored st newId tx now \<longrightarrow> snd (getHoldings st' now) = before)
      \<and> h_amount (lowered ! i) = d
      \<and> h_averagePrice (lowered ! i) = h_averagePrice (before ! i)
      \<and> (exact (a - b) \<longrightarrow> d = Fin (a - b))
      \<and> (distinct (map h_coinId before) \<longrightarrow> tx_coinId tx \<notin> h_coinId ` set removed)
      \<and> (list_all (\<lambda>h. jlt (Fin 0) (h_amount h)) before
           \<longrightarrow> list_all (\<lambda>h. jlt (Fin 0) (h_amount h)) written)"
proof -
  let ?before = "snd (getHoldings st now)"
  let ?d = "round64 (a - b)"
  let ?low = "?before[i := (?before ! i)\<lparr>h_amount := ?d, h_updatedAt := Some now\<rparr>]"
  let ?rem = "take i ?before @ drop (Suc i) ?before"
  let ?written = "if jle ?d (Fin 0) then ?rem else ?low"
  have i: "i < length ?before" and c: "h_coinId (?before ! i) = tx_coinId tx"
    using findIndex_Some [OF held] by simp_all
  have step: "updateHoldings_list ?before tx now = ?written"
    by (rule sell_step [OF held sell fin])
  have stored: "snd (getHoldings (fst (addTransaction st newId tx now)) now') = ?written"
    if "holdings_stored st newId tx now"
    using addTransaction_reads(1) [OF that] step by simp
  have refused: "snd (getHoldings (fst (addTransaction st newId tx now)) now) = ?before"
    if "\<not> holdings_stored st newId tx now"
    by (rule addTransaction_reads(2) [OF that])
  have gone: "tx_coinId tx \<notin> h_coinId ` set ?rem" if "distinct (map h_coinId ?before)"
    using nth_not_in_rest [OF that i] by (simp add: c)
  have positive: "list_all (\<lambda>h. jlt (Fin 0) (h_amount h)) ?written"
    if p: "list_all (\<lambda>h. jlt (Fin 0) (h_amount h)) ?before"
  proof (cases "jle ?d (Fin 0)")
    case True
    have "set ?rem \<subseteq> set ?before"
      by (auto dest: in_set_takeD in_set_dropD)
    then show ?thesis
      using p True by (auto simp only: if_True list_all_iff)
  next
    case False
    have "set ?low \<subseteq> insert ((?before ! i)\<lparr>h_amount := ?d, h_updatedAt := Some now\<rparr>) (set ?before)"
      by (rule set_update_subset_insert)
    moreover have "jlt (Fin 0) (h_amount ((?before ! i)\<lparr>h_amount := ?d, h_updatedAt := Some now\<rparr>))"
      using not_jle_zero [OF round64_not_NaN False] by simp
    ultimately show ?thesis
      using p False by (auto simp only: if_False list_all_iff)
  qed
  have kept: "h_amount (?low ! i) = ?d" "h_averagePrice (?low ! i) = h_averagePrice (?before ! i)"
    using i by simp_all
  have ex: "?d = Fin (a - b)" if "exact (a - b)"
    using that by (simp add: exact_def)
  show ?thesis
    unfolding Let_def
    using addTransaction_reads(3) [of st newId tx now] stored refused gone positive kept ex
    by blast
qed

lemma ledger_with_room_reads:
  "snd (getHoldings ledger_with_room now) = [two_btc]"
  "holdings_stored ledger_with_room ''t3'' sell_btc_30000 3"
   apply (simp add: ledger_with_room_def getHoldings_def storage_get_def getItem_def getFullKey_def
      STORAGE_PREFIX_def PORTFOLIO_def is_expired_def STORAGE_VERSION_def)
  apply (simp add: holdings_stored_def updateHoldings_stored_def ledger_with_room_def
      getHoldings_def getTransactions_def storage_get_def getItem_def getFullKey_def
      STORAGE_PREFIX_def PORTFOLIO_def TRANSACTIONS_def is_expired_def STORAGE_VERSION_def
      storage_set_def setItem_def capacity_def Let_def notifyListeners_def expiry_of_def)
  done

theorem sell_lowers_amount_or_removes_witness:
  "findIndex (\<lambda>h. h_coinId h = tx_coinId sell_btc_30000) (snd (getHoldings ledger_with_room 3))
       = Some 0
   \<and> holdings_stored ledger_with_room ''t3'' sell_btc_30000 3
   \<and> map amount_and_average
        (snd (getHoldings (fst (addTransaction ledger_with_room ''t3'' sell_btc_30000 3)) 4))
       = [(''bitcoin'', Fin (3/2), Fin 15000)]"
proof -
  have held: "findIndex (\<lambda>h. h_coinId h = tx_coinId sell_btc_30000)
                (snd (getHoldings ledger_with_room 3)) = Some 0"
    by (simp add: ledger_with_room_reads sell_btc_30000_def two_btc_def)
  have sell: "tx_type sell_btc_30000 = ''sell''"
    by (simp add: sell_btc_30000_def)
  have a: "h_amount (snd (getHoldings ledger_with_room 3) ! 0) = Fin 2"
    by (simp add: ledger_with_room_reads two_btc_def)
  have b: "tx_amount sell_btc_30000 = Fin (1/2)"
    by (simp add: sell_btc_30000_def)
  have stored: "holdings_stored ledger_with_room ''t3'' sell_btc_30000 3"
    by (rule ledger_with_room_reads(2))
  have "snd (getHoldings (fst (addTransaction ledger_with_room ''t3'' sell_btc_30000 3)) 4)
        = [two_btc\<lparr>h_amount := Fin (3/2), h_updatedAt := Some 3\<rparr>]"
    using sell_lowers_amount_or_removes [OF held sell a b, of "''t3''" 4] stored
    by (simp add: Let_def ledger_with_room_reads(1) round64_3_2 jle_def jeq_def)
  then show ?thesis
    using held stored by (simp add: amount_and_average_def two_btc_def)
qed

text \<open>
  The claim as stated fails in two ways. On a medium with no room left,
  \<open>addTransaction\<close> of a sell of 0.5 from a holding of 2 returns \<open>true\<close> and the
  holding read afterwards still has the amount 2. On a medium with room, a sell of 0.5
  from a holding of \<open>2^53\<close> leaves the amount \<open>2^53\<close>: the difference is rounded.
\<close>

theorem sell_leaves_amount:
  "snd (addTransaction ledger_exhausted ''t3'' sell_btc_30000 3)
   \<and> map amount_and_average
        (snd (getHoldings (fst (addTransaction ledger_exhausted ''t3'' sell_btc_30000 3)) 4))
       = [(''bitcoin'', Fin 2, Fin 15000)]
   \<and> map amount_and_average
        (snd (getHoldings (fst (addTransaction ledger_large ''t3'' sell_btc_30000 3)) 4))
       = [(''bitcoin'', Fin 9007199254740992, Fin 15000)]"
proof -
  have one: "snd (addTransaction ledger_exhausted ''t3'' sell_btc_30000 3)"
    by (simp add: addTransaction_def Let_def split: prod.split)
  have two: "map amount_and_average
        (snd (getHoldings (fst (addTransaction ledger_exhausted ''t3'' sell_btc_30000 3)) 4))
       = [(''bitcoin'', Fin 2, Fin 15000)]"
    by (simp add: addTransaction_def updateHoldings_def ledger_exhausted_def ledger_with_room_def
      getHoldings_def getTransactions_def storage_get_def getItem_def getFullKey_def
      STORAGE_PREFIX_def PORTFOLIO_def TRANSACTIONS_def is_expired_def STORAGE_VERSION_def
      storage_set_def setItem_def exhausted_def Let_def notifyListeners_def expiry_of_def
      clearExpired_def startsWith_def amount_and_average_def two_btc_def)
  have three: "map amount_and_average
        (snd (getHoldings (fst (addTransaction ledger_large ''t3'' sell_btc_30000 3)) 4))
       = [(''bitcoin'', Fin 9007199254740992, Fin 15000)]"
    by (simp add: addTransaction_def updateHoldings_def ledger_large_def
      getHoldings_def getTransactions_def storage_get_def getItem_def getFullKey_def
      STORAGE_PREFIX_def PORTFOLIO_def TRANSACTIONS_def is_expired_def STORAGE_VERSION_def
      storage_set_def setItem_def capacity_def Let_def notifyListeners_def expiry_of_def
      amount_and_average_def two_btc_def updateHoldings_list_def sell_btc_30000_def jsub_def
      round64_2_53_less_half jle_def jeq_def)
  show ?thesis
    using one two three by simp
qed

lemma is_buy_ofD:
  assumes "is_buy_of c tx"
  shows "tx_type tx = ''buy''" "tx_coinId tx = c"
    "tx_price tx = Fin (fin_of (tx_price tx))" "tx_amount tx = Fin (fin_of (tx_amount tx))"
    "0 < fin_of (tx_amount tx)"
  using assms by (auto simp: is_buy_of_def elim: is_fin.elims)

lemma first_buy:
  assumes others: "\<forall>x\<in>set hs. h_coinId x \<noteq> c" and buy: "is_buy_of c tx"
  shows "\<exists>h. updateHoldings_list hs tx now = hs @ [h] \<and> h_coinId h = c
            \<and> h_amount h = Fin (fin_of (tx_amount tx))
            \<and> h_averagePrice h = Fin (fin_of (tx_price tx))"
proof -
  have "findIndex (\<lambda>h. h_coinId h = tx_coinId tx) hs = None"
    using others is_buy_ofD(2) [OF buy] by (simp add: findIndex_None)
  then show ?thesis
    using is_buy_ofD [OF buy] by (simp add: updateHoldings_list_def)
qed

lemma next_buy:
  assumes others: "\<forall>x\<in>set hs. h_coinId x \<noteq> c" and buy: "is_buy_of c tx"
    and h: "h_coinId h = c" "h_amount h = Fin A" "h_averagePrice h = Fin avg" "0 < A"
    and ex: "exact (avg * A)" "exact (fin_of (tx_price tx) * fin_of (tx_amount tx))"
      "exact (avg * A + fin_of (tx_price tx) * fin_of (tx_amount tx))"
      "exact (A + fin_of (tx_amount tx))"
      "exact ((avg * A + fin_of (tx_price tx) * fin_of (tx_amount tx))
              / (A + fin_of (tx_amount tx)))"
  shows "\<exists>h'. updateHoldings_list (hs @ [h]) tx now = hs @ [h'] \<and> h_coinId h' = c
            \<and> h_amount h' = Fin (A + fin_of (tx_amount tx))
            \<and> h_averagePrice h'
                = Fin ((avg * A + fin_of (tx_price tx) * fin_of (tx_amount tx))
                        / (A + fin_of (tx_amount tx)))"
proof -
  let ?a = "fin_of (tx_amount tx)" and ?p = "fin_of (tx_price tx)"
  have idx: "findIndex (\<lambda>h. h_coinId h = tx_coinId tx) (hs @ [h]) = Some (length hs)"
    using others h(1) is_buy_ofD(2) [OF buy] by (intro findIndex_append_last) auto
  have pos: "A + ?a \<noteq> 0"
    using h(4) is_buy_ofD(5) [OF buy] by linarith
  have "jadd (h_amount h) (tx_amount tx) = jadd (Fin A) (Fin ?a)"
    using h(2) is_buy_ofD(4) [OF buy] by simp
  then have amt: "jadd (h_amount h) (tx_amount tx) = Fin (A + ?a)"
    using ex(4) by (simp add: exact_def)
  have "jmul (h_averagePrice h) (h_amount h) = jmul (Fin avg) (Fin A)"
    using h(2,3) by simp
  then have left: "jmul (h_averagePrice h) (h_amount h) = Fin (avg * A)"
    using ex(1) by (simp add: exact_def)
  have "jmul (tx_price tx) (tx_amount tx) = jmul (Fin ?p) (Fin ?a)"
    using is_buy_ofD(3,4) [OF buy] by simp
  then have right: "jmul (tx_price tx) (tx_amount tx) = Fin (?p * ?a)"
    using ex(2) by (simp add: exact_def)
  have cost: "jadd (jmul (h_averagePrice h) (h_amount h)) (jmul (tx_price tx) (tx_amount tx))
              = Fin (avg * A + ?p * ?a)"
    using ex(3) by (simp add: left right exact_def)
  have quot: "jdiv (Fin (avg * A + ?p * ?a)) (Fin (A + ?a)) = Fin ((avg * A + ?p * ?a) / (A + ?a))"
    using ex(5) pos by (simp add: exact_def)
  have "updateHoldings_list (hs @ [h]) tx now
        = hs @ [h\<lparr>h_amount := Fin (A + ?a),
                  h_averagePrice := Fin ((avg * A + ?p * ?a) / (A + ?a)),
                  h_updatedAt := Some now\<rparr>]"
    using is_buy_ofD(1) [OF buy]
    by (simp add: updateHoldings_list_def idx Let_def amt cost quot del: jdiv.simps)
  then show ?thesis
    using h(1) by simp
qed

lemma more_buys:
  assumes others: "\<forall>x\<in>set hs. h_coinId x \<noteq> c"
    and buys: "\<forall>(tx, t)\<in>set txs. is_buy_of c tx"
    and h: "h_coinId h = c" "h_amount h = Fin A" "h_averagePrice h = Fin avg" "0 < A"
    and free: "rounding_free avg A txs"
  shows "\<exists>h'. apply_incrementally (hs @ [h]) txs = hs @ [h'] \<and> h_coinId h' = c
            \<and> h_amount h' = Fin (A + sum_list (map (\<lambda>t. fin_of (tx_amount t)) (map fst txs)))
            \<and> h_averagePrice h'
                = Fin ((avg * A
                         + sum_list (map (\<lambda>t. fin_of (tx_price t) * fin_of (tx_amount t)) (map fst txs)))
                        / (A + sum_list (map (\<lambda>t. fin_of (tx_amount t)) (map fst txs))))"
  using buys h free
proof (induction txs arbitrary: h A avg)
  case Nil
  then show ?case by simp
next
  case (Cons p txs)
  obtain tx t where p: "p = (tx, t)"
    by (cases p)
  have buy: "is_buy_of c tx"
    using Cons.prems(1) p by simp
  let ?a = "fin_of (tx_amount tx)" and ?p = "fin_of (tx_price tx)"
  let ?avg = "(avg * A + ?p * ?a) / (A + ?a)"
  have ex: "exact (avg * A)" "exact (?p * ?a)" "exact (avg * A + ?p * ?a)" "exact (A + ?a)"
      "exact ?avg" "rounding_free ?avg (A + ?a) txs"
    using Cons.prems(6) by (simp_all add: p Let_def)
  from next_buy [OF others buy Cons.prems(2,3,4,5) ex(1,2,3,4,5), of t]
  obtain h1 where h1: "updateHoldings_list (hs @ [h]) tx t = hs @ [h1]" "h_coinId h1 = c"
      "h_amount h1 = Fin (A + ?a)" "h_averagePrice h1 = Fin ?avg"
    by blast
  have pos: "0 < A + ?a"
    using Cons.prems(5) is_buy_ofD(5) [OF buy] by linarith
  have cost_eq: "?avg * (A + ?a) = avg * A + ?p * ?a"
    using pos by simp
  have rest: "\<forall>(tx, t)\<in>set txs. is_buy_of c tx"
    using Cons.prems(1) by simp
  from Cons.IH [OF rest h1(2,3,4) pos ex(6)]
  show ?case
    by (simp only: cost_eq) (simp add: p h1(1) add.assoc)
qed

lemma buys_closed_form:
  assumes others: "\<forall>x\<in>set hs. h_coinId x \<noteq> c"
    and buys: "\<forall>(tx, t)\<in>set txs. is_buy_of c tx"
    and nonempty: "txs \<noteq> []"
    and free: "buys_rounding_free txs"
  shows "\<exists>h. apply_incrementally hs txs = hs @ [h] \<and> h_coinId h = c
            \<and> h_amount h = Fin (sum_list (map (\<lambda>t. fin_of (tx_amount t)) (map fst txs)))
            \<and> h_averagePrice h = Fin (weighted_mean (map fst txs))"
proof -
  obtain tx t rest where txs: "txs = (tx, t) # rest"
    using nonempty by (cases txs) auto
  have buy: "is_buy_of c tx" and rest: "\<forall>(tx, t)\<in>set rest. is_buy_of c tx"
    using buys txs by simp_all
  let ?a = "fin_of (tx_amount tx)" and ?p = "fin_of (tx_price tx)"
  from first_buy [OF others buy, of t]
  obtain h0 where h0: "updateHoldings_list hs tx t = hs @ [h0]" "h_coinId h0 = c"
      "h_amount h0 = Fin ?a" "h_averagePrice h0 = Fin ?p"
    by blast
  have pos: "0 < ?a"
    by (rule is_buy_ofD(5) [OF buy])
  have free': "rounding_free ?p ?a rest"
    using free by (simp add: buys_rounding_free_def txs)
  from more_buys [OF others rest h0(2,3,4) pos free']
  show ?thesis
    by (simp add: txs h0(1) weighted_mean_def)
qed

lemma sum_list_map_mset:
  fixes f :: "'a \<Rightarrow> real"
  assumes "mset xs = mset ys"
  shows "sum_list (map f xs) = sum_list (map f ys)"
proof -
  have "sum_list (map f xs) = sum_mset (image_mset f (mset xs))"
    by (simp add: sum_mset_sum_list [symmetric])
  also have "\<dots> = sum_mset (image_mset f (mset ys))"
    by (simp add: assms)
  also have "\<dots> = sum_list (map f ys)"
    by (simp add: sum_mset_sum_list [symmetric])
  finally show ?thesis .
qed

lemma weighted_mean_mset:
  assumes "mset xs = mset ys"
  shows "weighted_mean xs = weighted_mean ys"
  by (simp add: weighted_mean_def sum_list_map_mset [OF assms])

text \<open>
  C6. Claimed: for every sequence of buys of one coin applied incrementally, the average
  price of the holding is the quantity-weighted mean of the fill prices, the same for
  every permutation of the sequence.
  As amended: for a non-empty sequence of buys of one coin, with finite prices and finite
  positive amounts, applied in turn by the incremental update to holdings that do not have
  the coin, when the products, sums and quotients that the update computes are binary64
  numbers as they stand, in that order and in another order of the same buys (at any
  times): one holding of the coin is appended, its average price is the quantity-weighted
  mean of the fill prices, and the other order gives the same average price and the same
  amount.
\<close>

theorem buys_average_is_weighted_mean:
  assumes others: "\<forall>x\<in>set hs. h_coinId x \<noteq> c"
    and buys: "\<forall>(tx, t)\<in>set txs. is_buy_of c tx"
    and nonempty: "txs \<noteq> []"
    and perm: "mset (map fst txs') = mset (map fst txs)"
    and free: "buys_rounding_free txs" "buys_rounding_free txs'"
  shows "\<exists>h h'. apply_incrementally hs txs = hs @ [h]
              \<and> apply_incrementally hs txs' = hs @ [h']
              \<and> h_averagePrice h = Fin (weighted_mean (map fst txs))
              \<and> h_averagePrice h' = h_averagePrice h
              \<and> h_amount h' = h_amount h"
proof -
  have set_eq: "set (map fst txs') = set (map fst txs)"
    using perm by (rule mset_eq_setD)
  have buys': "\<forall>(tx, t)\<in>set txs'. is_buy_of c tx"
  proof (clarify)
    fix tx t assume "(tx, t) \<in> set txs'"
    then have "tx \<in> set (map fst txs)"
      using set_eq by force
    then show "is_buy_of c tx"
      using buys by auto
  qed
  have nonempty': "txs' \<noteq> []"
    using perm nonempty by auto
  have sums: "sum_list (map (\<lambda>t. fin_of (tx_amount t)) (map fst txs'))
            = sum_list (map (\<lambda>t. fin_of (tx_amount t)) (map fst txs))"
    by (rule sum_list_map_mset [OF perm])
  obtain h where h: "apply_incrementally hs txs = hs @ [h]"
      "h_amount h = Fin (sum_list (map (\<lambda>t. fin_of (tx_amount t)) (map fst txs)))"
      "h_averagePrice h = Fin (weighted_mean (map fst txs))"
    using buys_closed_form [OF others buys nonempty free(1)] by blast
  obtain h' where h': "apply_incrementally hs txs' = hs @ [h']"
      "h_amount h' = Fin (sum_list (map (\<lambda>t. fin_of (tx_amount t)) (map fst txs')))"
      "h_averagePrice h' = Fin (weighted_mean (map fst txs'))"
    using buys_closed_form [OF others buys' nonempty' free(2)] by blast
  have "h_averagePrice h' = h_averagePrice h"
    by (simp add: h(3) h'(3) weighted_mean_mset [OF perm])
  moreover have "h_amount h' = h_amount h"
    by (simp only: h(2) h'(2) sums)
  ultimately show ?thesis
    using h(1,3) h'(1) by blast
qed

theorem buys_average_is_weighted_mean_witness:
  "(\<exists>h h'. apply_incrementally [] [(buy_btc_10000, 1), (buy_btc_20000, 2)] = [] @ [h]
          \<and> apply_incrementally [] [(buy_btc_20000, 5), (buy_btc_10000, 6)] = [] @ [h']
          \<and> h_averagePrice h = Fin (weighted_mean (map fst [(buy_btc_10000, 1::int), (buy_btc_20000, 2)]))
          \<and> h_averagePrice h' = h_averagePrice h
          \<and> h_amount h' = h_amount h)
   \<and> weighted_mean [buy_btc_10000, buy_btc_20000] = 15000
   \<and> buys_rounding_free [(buy_btc_10000, 1::int), (buy_btc_20000, 2)]
   \<and> buys_rounding_free [(buy_btc_20000, 5::int), (buy_btc_10000, 6)]"
proof -
  have a: "\<forall>x\<in>set ([] :: holding list). h_coinId x \<noteq> ''bitcoin''"
    by simp
  have b: "\<forall>(tx, t)\<in>set [(buy_btc_10000, 1::int), (buy_btc_20000, 2)]. is_buy_of ''bitcoin'' tx"
    by (simp add: is_buy_of_def buy_btc_10000_def buy_btc_20000_def)
  have c: "[(buy_btc_10000, 1::int), (buy_btc_20000, 2)] \<noteq> []"
    by simp
  have d: "mset (map fst [(buy_btc_20000, 5::int), (buy_btc_10000, 6)])
         = mset (map fst [(buy_btc_10000, 1::int), (buy_btc_20000, 2)])"
    by (simp add: add_mset_commute)
  have e: "weighted_mean [buy_btc_10000, buy_btc_20000] = 15000"
    by (simp add: weighted_mean_def buy_btc_10000_def buy_btc_20000_def)
  have f: "buys_rounding_free [(buy_btc_10000, 1::int), (buy_btc_20000, 2)]"
    by (simp add: buys_rounding_free_def buy_btc_10000_def buy_btc_20000_def Let_def exact_def
        round64_ledger)
  have g: "buys_rounding_free [(buy_btc_20000, 5::int), (buy_btc_10000, 6)]"
    by (simp add: buys_rounding_free_def buy_btc_10000_def buy_btc_20000_def Let_def exact_def
        round64_ledger)
  show ?thesis
    using buys_average_is_weighted_mean [OF a b c d f g] e f g by blast
qed

text \<open>
  The claim as stated fails in binary64: for the buys of 7 at 3, 6 at 1 and 1 at 1, whose
  quantity-weighted mean price is 2, the incremental update in that order gives the average
  \<open>2 + 2^-51\<close> (27/13 is rounded), and gives 2 when the buy of 1 comes before the buy
  of 6.
\<close>

theorem buys_average_depends_on_order:
  "map amount_and_average
     (apply_incrementally [] [(buy_7_at_3, 1), (buy_6_at_1, 2), (buy_1_at_1, 3)])
     = [(''bitcoin'', Fin 14, Fin (4503599627370497 / 2251799813685248))]
   \<and> map amount_and_average
     (apply_incrementally [] [(buy_7_at_3, 1), (buy_1_at_1, 2), (buy_6_at_1, 3)])
     = [(''bitcoin'', Fin 14, Fin 2)]
   \<and> weighted_mean [buy_7_at_3, buy_6_at_1, buy_1_at_1] = 2"
  by (simp add: updateHoldings_list_def buy_7_at_3_def buy_6_at_1_def buy_1_at_1_def Let_def
      amount_and_average_def weighted_mean_def round64_buys)

section \<open>Properties of the AlertsManager\<close>

















end
